theory Spec2Isabelle
  imports Complex_Main "HOL-Library.AList"
begin

section \<open>JavaScript values\<close>

text \<open>
  The dashboard is JavaScript: every value that reaches the normalizers or the refresh
  cycle is a parsed JSON value, a literal of the bundled sample data, or \<open>undefined\<close>
  (the result of reading an absent property).

  A number is an IEEE double. The finite ones are modelled by the rationals they denote
  (both zeros are \<open>Fin 0\<close>); the rounding of \<open>/ 100\<close> and \<open>* 100\<close> is not modelled.
  Strings are their UTF-8 bytes, so equality of strings is equality of byte lists.
\<close>

datatype jsnum = Fin rat | NaN | PInf | NInf

datatype jsval =
    VUndef
  | VNull
  | VBool bool
  | VNum jsnum
  | VStr string
  | VArr "jsval list"
  | VObj "(string \<times> jsval) list"

datatype error = TypeError | NetworkError | StatusError | SyntaxError

text \<open>
  The conversions of the host that the program calls on values it does not control:
  \<open>Number(v)\<close> and the string conversion of a template literal, for a string, an array or
  an object (and, for the string conversion, a number). They are parameters of the model:
  every theorem holds for whatever numbers and strings they return.
\<close>

record host =
  to_number :: "jsval \<Rightarrow> jsnum"
  to_string :: "jsval \<Rightarrow> string"

definition nullish :: "jsval \<Rightarrow> bool" where
  "nullish v = (v = VUndef \<or> v = VNull)"

text \<open>\<open>a ?? b\<close>\<close>

definition nc :: "jsval \<Rightarrow> jsval \<Rightarrow> jsval" where
  "nc a b = (if nullish a then b else a)"

definition truthy_num :: "jsnum \<Rightarrow> bool" where
  "truthy_num n = (n \<noteq> Fin 0 \<and> n \<noteq> NaN)"

fun truthy :: "jsval \<Rightarrow> bool" where
  "truthy VUndef = False"
| "truthy VNull = False"
| "truthy (VBool b) = b"
| "truthy (VNum n) = truthy_num n"
| "truthy (VStr s) = (s \<noteq> [])"
| "truthy (VArr xs) = True"
| "truthy (VObj kvs) = True"

text \<open>\<open>a || b\<close>, on values and on numbers\<close>

definition or_js :: "jsval \<Rightarrow> jsval \<Rightarrow> jsval" where
  "or_js a b = (if truthy a then a else b)"

definition or_num :: "jsnum \<Rightarrow> jsnum \<Rightarrow> jsnum" where
  "or_num a b = (if truthy_num a then a else b)"

text \<open>
  The number of UTF-16 code units of a string given by its UTF-8 bytes: one for each byte
  that starts a character, and one more for a character of four bytes.
\<close>

definition utf16_length :: "string \<Rightarrow> nat" where
  "utf16_length s =
     length (filter (\<lambda>c. \<not> (128 \<le> (of_char c :: nat) \<and> (of_char c :: nat) < 192)) s)
     + length (filter (\<lambda>c. 240 \<le> (of_char c :: nat)) s)"

text \<open>
  \<open>v.k\<close> on a value that is neither \<open>undefined\<close> nor \<open>null\<close> (on those two the read
  throws, which each function that reads checks first), for the keys the program reads:
  the field aliases and \<open>length\<close>. None of them is an array index or a name on a
  prototype other than \<open>length\<close>. An object is its list of properties, one per key.
\<close>

fun dot :: "jsval \<Rightarrow> string \<Rightarrow> jsval" where
  "dot (VObj kvs) k = (case map_of kvs k of None \<Rightarrow> VUndef | Some v \<Rightarrow> v)"
| "dot (VArr xs) k = (if k = ''length'' then VNum (Fin (of_nat (length xs))) else VUndef)"
| "dot (VStr s) k = (if k = ''length'' then VNum (Fin (of_nat (utf16_length s))) else VUndef)"
| "dot v k = VUndef"

text \<open>\<open>Number(v)\<close>\<close>

definition Number_js :: "host \<Rightarrow> jsval \<Rightarrow> jsnum" where
  "Number_js h v =
     (case v of
        VUndef \<Rightarrow> NaN
      | VNull \<Rightarrow> Fin 0
      | VBool b \<Rightarrow> Fin (if b then 1 else 0)
      | VNum n \<Rightarrow> n
      | _ \<Rightarrow> to_number h v)"

text \<open>The string a template literal makes of a value.\<close>

definition String_js :: "host \<Rightarrow> jsval \<Rightarrow> string" where
  "String_js h v =
     (case v of
        VUndef \<Rightarrow> ''undefined''
      | VNull \<Rightarrow> ''null''
      | VBool b \<Rightarrow> (if b then ''true'' else ''false'')
      | VStr s \<Rightarrow> s
      | _ \<Rightarrow> to_string h v)"

text \<open>\<open>Number.isFinite(n)\<close>, \<open>Math.abs(n)\<close>, \<open>n > 1\<close>, \<open>n / 100\<close>, \<open>n * 100\<close>\<close>

fun isFinite :: "jsnum \<Rightarrow> bool" where
  "isFinite (Fin q) = True"
| "isFinite n = False"

fun abs_js :: "jsnum \<Rightarrow> jsnum" where
  "abs_js (Fin q) = Fin \<bar>q\<bar>"
| "abs_js NaN = NaN"
| "abs_js PInf = PInf"
| "abs_js NInf = PInf"

fun gt_one :: "jsnum \<Rightarrow> bool" where
  "gt_one (Fin q) = (1 < q)"
| "gt_one PInf = True"
| "gt_one NaN = False"
| "gt_one NInf = False"

fun div100 :: "jsnum \<Rightarrow> jsnum" where
  "div100 (Fin q) = Fin (q / 100)"
| "div100 n = n"

fun mul100 :: "jsnum \<Rightarrow> jsnum" where
  "mul100 (Fin q) = Fin (q * 100)"
| "mul100 n = n"

text \<open>
  \<open>s.toUpperCase()\<close>: a value that is not a string has no such method, and the call
  throws. The case mapping is that of the ASCII letters; other bytes stay.
\<close>

definition upper_char :: "char \<Rightarrow> char" where
  "upper_char c =
     (if 97 \<le> (of_char c :: nat) \<and> (of_char c :: nat) \<le> 122
      then char_of ((of_char c :: nat) - 32) else c)"

fun toUpperCase :: "jsval \<Rightarrow> error + string" where
  "toUpperCase (VStr s) = Inr (map upper_char s)"
| "toUpperCase v = Inl TypeError"

text \<open>The placeholder of a missing symbol: an em dash, U+2014.\<close>

definition placeholder :: string where
  "placeholder = [CHR 0xE2, CHR 0x80, CHR 0x94]"

section \<open>Field normalizers\<close>

text \<open>\<open>normalizeTrade\<close> (TradesTable.jsx)\<close>

definition normalizeTrade :: "host \<Rightarrow> jsval \<Rightarrow> error + jsval" where
  "normalizeTrade h trade =
     (if nullish trade then Inl TypeError
      else
        let side = nc (dot trade ''side'') (nc (dot trade ''action'')
                     (nc (dot trade ''type'') (VStr ''HOLD'')));
            quantity = Number_js h (nc (dot trade ''quantity'') (nc (dot trade ''qty'')
                     (nc (dot trade ''shares'') (VNum (Fin 0)))));
            priceRaw = Number_js h (nc (dot trade ''price'') (nc (dot trade ''fill_price'')
                     (nc (dot trade ''filled_avg_price'') (VNum (Fin 0)))));
            pnl = Number_js h (nc (dot trade ''pnl'') (nc (dot trade ''profit'')
                     (nc (dot trade ''realized_pl'') (VNum (Fin 0)))));
            ident = nc (dot trade ''id'') (nc (dot trade ''trade_id'')
                     (nc (dot trade ''order_id'')
                       (VStr (String_js h (dot trade ''symbol'') @ ''-''
                              @ String_js h (dot trade ''timestamp'')))))
        in case toUpperCase side of
             Inl e \<Rightarrow> Inl e
           | Inr normalizedSide \<Rightarrow>
               Inr (VObj
                 [(''id'', ident),
                  (''timestamp'', nc (dot trade ''timestamp'') (nc (dot trade ''filled_at'')
                     (nc (dot trade ''created_at'') VNull))),
                  (''symbol'', nc (dot trade ''symbol'') (nc (dot trade ''ticker'')
                     (VStr placeholder))),
                  (''side'', VStr normalizedSide),
                  (''quantity'', VNum (if isFinite quantity then quantity else Fin 0)),
                  (''price'', VNum (if isFinite priceRaw then priceRaw else Fin 0)),
                  (''pnl'', VNum (if isFinite pnl then pnl else Fin 0)),
                  (''model'', nc (dot trade ''model'') (nc (dot trade ''strategy'')
                     (VStr ''AI Agent'')))]))"

text \<open>\<open>normalizeSignal\<close> (SignalGrid.jsx)\<close>

definition normalizeSignal :: "host \<Rightarrow> jsval \<Rightarrow> error + jsval" where
  "normalizeSignal h signal =
     (if nullish signal then Inl TypeError
      else
        let confidenceRaw = Number_js h (nc (dot signal ''confidence'')
                     (nc (dot signal ''score'') (nc (dot signal ''signal_strength'')
                       (VNum (Fin 0)))));
            positionSizeRaw = Number_js h (nc (dot signal ''positionSize'')
                     (nc (dot signal ''weight'') (nc (dot signal ''position_size'')
                       (VNum (Fin 0)))));
            confidence = (if gt_one confidenceRaw then div100 confidenceRaw else confidenceRaw);
            positionSize =
              (if gt_one positionSizeRaw then div100 positionSizeRaw else positionSizeRaw)
        in case toUpperCase (nc (dot signal ''action'') (nc (dot signal ''side'')
                     (VStr ''HOLD''))) of
             Inl e \<Rightarrow> Inl e
           | Inr action \<Rightarrow>
               Inr (VObj
                 [(''symbol'', nc (dot signal ''symbol'') (nc (dot signal ''ticker'')
                     (VStr placeholder))),
                  (''action'', VStr action),
                  (''confidence'', VNum confidence),
                  (''positionSize'', VNum positionSize),
                  (''thesis'', nc (dot signal ''thesis'') (nc (dot signal ''reason'')
                     (nc (dot signal ''notes'') (VStr ''Signal details unavailable.''))))]))"

text \<open>\<open>normalizePosition\<close> (PositionsTable.jsx)\<close>

definition normalizePosition :: "host \<Rightarrow> jsval \<Rightarrow> error + jsval" where
  "normalizePosition h position =
     (if nullish position then Inl TypeError
      else
        let quantityRaw = Number_js h (nc (dot position ''quantity'')
                     (nc (dot position ''qty'') (nc (dot position ''shares'') (VNum (Fin 0)))));
            averagePrice = Number_js h (nc (dot position ''averagePrice'')
                     (nc (dot position ''avg_price'') (nc (dot position ''avgEntryPrice'')
                       (nc (dot position ''avg_entry_price'') (VNum (Fin 0))))));
            marketPrice = Number_js h (nc (dot position ''marketPrice'')
                     (nc (dot position ''current_price'') (nc (dot position ''currentPrice'')
                       (nc (dot position ''market_price'') (VNum (Fin 0))))));
            pnlRaw = Number_js h (nc (dot position ''unrealizedPnl'')
                     (nc (dot position ''unrealized_pl'') (nc (dot position ''unrealized_pl'')
                       (nc (dot position ''pnl'') (VNum (Fin 0))))));
            pnlPercentRaw = Number_js h (nc (dot position ''unrealizedPnlPercent'')
                     (nc (dot position ''unrealized_plpc'')
                       (nc (dot position ''unrealized_pl_percent'')
                         (nc (dot position ''pnl_percent'') (VNum (Fin 0))))));
            pnlPercent =
              (if isFinite pnlPercentRaw
               then (if gt_one (abs_js pnlPercentRaw) then pnlPercentRaw
                     else mul100 pnlPercentRaw)
               else Fin 0);
            quantity = (if isFinite quantityRaw then quantityRaw else Fin 0);
            avg = or_num averagePrice marketPrice;
            last = or_num marketPrice averagePrice;
            avgSafe = (if isFinite avg then avg else Fin 0);
            lastSafe = (if isFinite last then last else Fin 0)
        in Inr (VObj
             [(''symbol'', nc (dot position ''symbol'') (nc (dot position ''ticker'')
                 (nc (dot position ''asset'') (VStr placeholder)))),
              (''quantity'', VNum quantity),
              (''averagePrice'', VNum avgSafe),
              (''marketPrice'', VNum lastSafe),
              (''pnl'', VNum (if isFinite pnlRaw then pnlRaw else Fin 0)),
              (''pnlPercent'', VNum pnlPercent)]))"

section \<open>The baseline dataset\<close>

text \<open>The bundled sample data (mockData.js), value by value.\<close>

definition mockPerformance_metrics :: "(string \<times> jsval) list" where
  "mockPerformance_metrics =
     [(''portfolioValue'', VNum (Fin 247832.5)),
      (''portfolioChange'', VNum (Fin 12.3)),
      (''dailyPnl'', VNum (Fin 3421.0)),
      (''dailyPnlPercent'', VNum (Fin 1.45)),
      (''openPositions'', VNum (Fin 10)),
      (''openPositionsChange'', VNum (Fin 1.2)),
      (''winRate'', VNum (Fin 67.8)),
      (''winRateChange'', VNum (Fin (- 0.6))),
      (''sharpeRatio'', VNum (Fin 1.84)),
      (''sharpeRatioChange'', VNum (Fin 0.12)),
      (''maxDrawdown'', VNum (Fin (- 5.2))),
      (''maxDrawdownChange'', VNum (Fin 0.4)),
      (''buyingPower'', VNum (Fin 54821.0)),
      (''rollingSharpe'', VNum (Fin 1.84)),
      (''aiConfidence'', VNum (Fin 78)),
      (''lastUpdated'', VStr ''2025-11-10T15:45:00Z'')]"

definition equity_point :: "string \<Rightarrow> rat \<Rightarrow> jsval" where
  "equity_point d v = VObj [(''date'', VStr d), (''value'', VNum (Fin v))]"

definition mockPerformance_equityCurve :: "jsval list" where
  "mockPerformance_equityCurve =
     [equity_point ''Sep'' 185000,
      equity_point ''Oct'' 198200,
      equity_point ''Nov'' 205600,
      equity_point ''Dec'' 212450,
      equity_point ''Jan'' 221320,
      equity_point ''Feb'' 229880,
      equity_point ''Mar'' 236540,
      equity_point ''Apr'' 239400,
      equity_point ''May'' 243200,
      equity_point ''Jun'' 247832]"

definition mock_signal :: "string \<Rightarrow> string \<Rightarrow> rat \<Rightarrow> string \<Rightarrow> rat \<Rightarrow> jsval" where
  "mock_signal sy act conf th psize =
     VObj [(''symbol'', VStr sy), (''action'', VStr act), (''confidence'', VNum (Fin conf)),
           (''thesis'', VStr th), (''positionSize'', VNum (Fin psize))]"

definition mockSignals_tech :: "jsval list" where
  "mockSignals_tech =
     [mock_signal ''AAPL'' ''BUY'' 0.82 ''Earnings momentum following services beat'' 0.14,
      mock_signal ''MSFT'' ''HOLD'' 0.64 ''Azure growth stabilizing, await breakout'' 0.1,
      mock_signal ''NVDA'' ''BUY'' 0.79 ''Data center demand remains elevated'' 0.18,
      mock_signal ''GOOGL'' ''BUY'' 0.7 ''Search volumes accelerating week-over-week'' 0.12,
      mock_signal ''TSLA'' ''SELL'' 0.68 ''Delivery softness and margin pressure'' 0.08]"

definition mockSignals_energy :: "jsval list" where
  "mockSignals_energy =
     [mock_signal ''XOM'' ''BUY'' 0.77 ''Crude spreads tightening into winter demand'' 0.16,
      mock_signal ''CVX'' ''HOLD'' 0.58 ''Awaiting confirmation of trend reversal'' 0.09,
      mock_signal ''JPM'' ''SELL'' 0.66 ''Net interest margin compression risk'' 0.11,
      mock_signal ''BAC'' ''HOLD'' 0.55 ''Limited catalysts in current rate regime'' 0.08]"

text \<open>\<open>mockSignals[selectedModel]\<close>: \<open>undefined\<close> for a model the data does not list.\<close>

definition mockSignals :: "string \<Rightarrow> jsval" where
  "mockSignals m =
     (if m = ''tech'' then VArr mockSignals_tech
      else if m = ''energy'' then VArr mockSignals_energy
      else VUndef)"

definition mock_trade ::
  "string \<Rightarrow> string \<Rightarrow> string \<Rightarrow> string \<Rightarrow> rat \<Rightarrow> rat \<Rightarrow> rat \<Rightarrow> string \<Rightarrow> jsval" where
  "mock_trade i ts sy sd qty pr pl mdl =
     VObj [(''id'', VStr i), (''timestamp'', VStr ts), (''symbol'', VStr sy),
           (''side'', VStr sd), (''quantity'', VNum (Fin qty)), (''price'', VNum (Fin pr)),
           (''pnl'', VNum (Fin pl)), (''model'', VStr mdl)]"

definition mockTrades :: "jsval list" where
  "mockTrades =
     [mock_trade ''TRD-10567'' ''2025-11-10T14:35:00Z'' ''AAPL'' ''BUY'' 25 182.34 0
        ''Tech Sector Agent'',
      mock_trade ''TRD-10566'' ''2025-11-10T13:02:00Z'' ''NVDA'' ''SELL'' 10 488.65 325.4
        ''Tech Sector Agent'',
      mock_trade ''TRD-10565'' ''2025-11-09T20:15:00Z'' ''XOM'' ''BUY'' 40 119.24 0
        ''Energy & Finance Agent'',
      mock_trade ''TRD-10564'' ''2025-11-09T16:48:00Z'' ''MSFT'' ''BUY'' 15 414.91 0
        ''Tech Sector Agent'',
      mock_trade ''TRD-10563'' ''2025-11-09T15:12:00Z'' ''JPM'' ''SELL'' 20 224.35 (- 112.8)
        ''Energy & Finance Agent'']"

definition mock_position :: "string \<Rightarrow> rat \<Rightarrow> rat \<Rightarrow> rat \<Rightarrow> rat \<Rightarrow> rat \<Rightarrow> jsval" where
  "mock_position sy qty avg mkt pl plpc =
     VObj [(''symbol'', VStr sy), (''quantity'', VNum (Fin qty)),
           (''averagePrice'', VNum (Fin avg)), (''marketPrice'', VNum (Fin mkt)),
           (''unrealizedPnl'', VNum (Fin pl)), (''unrealizedPnlPercent'', VNum (Fin plpc))]"

definition mockPositions :: "jsval list" where
  "mockPositions =
     [mock_position ''AAPL'' 80 176.25 182.34 487.2 3.12,
      mock_position ''MSFT'' 45 406.1 414.91 396.45 2.02,
      mock_position ''NVDA'' 35 472.8 488.65 554.25 3.34,
      mock_position ''GOOGL'' 30 138.45 141.12 80.1 1.93,
      mock_position ''TSLA'' 20 242.8 236.44 (- 127.2) (- 2.62)]"

section \<open>The dashboard state and one refresh cycle\<close>

text \<open>
  The state of \<open>App\<close> that the refresh cycle reads or writes (the \<open>useState\<close> cells of
  App.jsx; \<open>activeTab\<close> and \<open>isLive\<close> are presentation only and are left out).
\<close>

datatype source = Mock | Live

record perf =
  metrics :: jsval
  equityCurve :: jsval

record app =
  selectedModel :: string
  performance :: perf
  signals :: jsval
  trades :: jsval
  positions :: jsval
  loading :: bool
  dataSource :: source

text \<open>
  \<open>(mockSignals[selectedModel] ?? []).map((signal) => ({ ...signal }))\<close>: a copy, equal
  to the sample signals of the model, or the empty array.
\<close>

definition fallbackSignals :: "string \<Rightarrow> jsval" where
  "fallbackSignals m = nc (mockSignals m) (VArr [])"

text \<open>
  What one \<open>fetch\<close> comes to: the promise rejects (a network error), or it resolves to a
  response with its \<open>ok\<close> flag and a body that \<open>res.json()\<close> either parses or rejects.
\<close>

datatype body = Malformed | Json jsval

datatype response = Rejected | Response bool body

fun ok :: "response \<Rightarrow> bool" where
  "ok (Response b bd) = b"
| "ok Rejected = False"

fun json :: "response \<Rightarrow> error + jsval" where
  "json (Response b (Json v)) = Inr v"
| "json (Response b Malformed) = Inl SyntaxError"
| "json Rejected = Inl NetworkError"

text \<open>
  Lines 78--92 of \<open>fetchDashboardData\<close>: \<open>Promise.all\<close> of the four requests rejects when
  one of them does; any response that is not \<open>ok\<close> throws; then the four bodies are parsed
  in order.
\<close>

definition fetched ::
  "response \<Rightarrow> response \<Rightarrow> response \<Rightarrow> response \<Rightarrow> error + (jsval \<times> jsval \<times> jsval \<times> jsval)" where
  "fetched performanceRes signalsRes tradesRes positionsRes =
     (if Rejected \<in> set [performanceRes, signalsRes, tradesRes, positionsRes]
      then Inl NetworkError
      else if \<not> ok performanceRes \<or> \<not> ok signalsRes \<or> \<not> ok tradesRes \<or> \<not> ok positionsRes
      then Inl StatusError
      else
        case json performanceRes of Inl e \<Rightarrow> Inl e | Inr performanceJson \<Rightarrow>
        case json signalsRes of Inl e \<Rightarrow> Inl e | Inr signalsJson \<Rightarrow>
        case json tradesRes of Inl e \<Rightarrow> Inl e | Inr tradesJson \<Rightarrow>
        case json positionsRes of Inl e \<Rightarrow> Inl e | Inr positionsJson \<Rightarrow>
          Inr (performanceJson, signalsJson, tradesJson, positionsJson))"

text \<open>
  Object spread. The own properties of a value: those of an object; the elements of an
  array and the characters of a string under their indices (a string is taken byte by
  byte, which is exact for ASCII); none for the other values. Spreading assigns them in
  order over the properties already there.
\<close>

fun decimal :: "nat \<Rightarrow> string" where
  "decimal n =
     (if n < 10 then [char_of (48 + n)]
      else decimal (n div 10) @ [char_of (48 + n mod 10)])"

fun own_props :: "jsval \<Rightarrow> (string \<times> jsval) list" where
  "own_props (VObj kvs) = kvs"
| "own_props (VArr xs) = zip (map decimal [0..<length xs]) xs"
| "own_props (VStr s) = zip (map decimal [0..<length s]) (map (\<lambda>c. VStr [c]) s)"
| "own_props v = []"

definition spread :: "(string \<times> jsval) list \<Rightarrow> (string \<times> jsval) list \<Rightarrow> (string \<times> jsval) list" where
  "spread base ext = fold (\<lambda>(k, v). AList.update k v) ext base"

text \<open>The initial values of the \<open>useState\<close> cells.\<close>

definition app_init :: app where
  "app_init =
     \<lparr> selectedModel = ''tech'',
       performance = \<lparr> metrics = VObj (spread [] mockPerformance_metrics),
                       equityCurve = VArr mockPerformance_equityCurve \<rparr>,
       signals = fallbackSignals ''tech'',
       trades = VArr mockTrades,
       positions = VArr mockPositions,
       loading = False,
       dataSource = Mock \<rparr>"

text \<open>\<open>v?.length\<close>\<close>

definition opt_length :: "jsval \<Rightarrow> jsval" where
  "opt_length v = (if nullish v then VUndef else dot v ''length'')"

text \<open>Lines 96--104: the metrics and the equity curve of a performance payload.\<close>

definition live_metrics :: "jsval \<Rightarrow> (string \<times> jsval) list" where
  "live_metrics performanceJson =
     (let metrics = spread (spread [] mockPerformance_metrics)
                      (own_props (nc (dot performanceJson ''metrics'') (VObj [])))
      in if truthy (or_js (dot performanceJson ''last_updated'')
                          (dot performanceJson ''lastUpdated''))
         then AList.update ''lastUpdated''
                (nc (dot performanceJson ''last_updated'') (dot performanceJson ''lastUpdated''))
                metrics
         else metrics)"

definition live_equityCurve :: "jsval \<Rightarrow> jsval" where
  "live_equityCurve performanceJson =
     or_js (dot performanceJson ''equity_curve'')
       (or_js (dot performanceJson ''equityCurve'') (VArr mockPerformance_equityCurve))"

text \<open>
  Lines 96--111, the rest of the \<open>try\<close> block: the four setters and \<open>setDataSource('live')\<close>,
  in order. Reading a property of a body that is \<open>null\<close> throws, after the setters before
  it have run; the result is the error, if any, and the state reached.
\<close>

definition commit_live :: "string \<Rightarrow> jsval \<Rightarrow> jsval \<Rightarrow> jsval \<Rightarrow> jsval \<Rightarrow> app \<Rightarrow> error option \<times> app" where
  "commit_live m performanceJson signalsJson tradesJson positionsJson a =
     (if nullish performanceJson then (Some TypeError, a)
      else
        let a1 = a\<lparr>performance := \<lparr> metrics = VObj (live_metrics performanceJson),
                                      equityCurve = live_equityCurve performanceJson \<rparr>\<rparr>
        in if nullish signalsJson then (Some TypeError, a1)
        else
          let a2 = a1\<lparr>signals :=
                (if truthy (opt_length (dot signalsJson ''signals''))
                 then dot signalsJson ''signals'' else fallbackSignals m)\<rparr>
          in if nullish tradesJson then (Some TypeError, a2)
          else
            let a3 = a2\<lparr>trades :=
                  (if truthy (opt_length (dot tradesJson ''trades''))
                   then dot tradesJson ''trades'' else VArr mockTrades)\<rparr>
            in if nullish positionsJson then (Some TypeError, a3)
            else
              (None, a3\<lparr>positions :=
                    (if truthy (opt_length (dot positionsJson ''positions''))
                     then dot positionsJson ''positions'' else VArr mockPositions),
                  dataSource := Live\<rparr>))"

text \<open>Lines 114--122, the \<open>catch\<close> block past its guard.\<close>

definition commit_fallback :: "string \<Rightarrow> app \<Rightarrow> app" where
  "commit_fallback m a =
     a\<lparr>performance := \<lparr> metrics = VObj (spread [] mockPerformance_metrics),
                          equityCurve = VArr mockPerformance_equityCurve \<rparr>,
       signals := fallbackSignals m,
       trades := VArr mockTrades,
       positions := VArr mockPositions,
       dataSource := Mock\<rparr>"

text \<open>
  \<open>fetchDashboardData\<close> in two parts. \<open>begin_fetch\<close> is lines 74--75, run when the function
  is called: nothing when the effect has been cleaned up, else \<open>setLoading(true)\<close> and the
  four requests leave. \<open>settle\<close> is lines 85--127, run when the requests have come back:
  \<open>isMounted\<close> is the flag of the effect at that moment, \<open>m\<close> the \<open>selectedModel\<close> the
  effect closed over. A cleaned-up effect returns at line 94 or at line 113, and its
  \<open>finally\<close> block does nothing.
\<close>

definition begin_fetch :: "bool \<Rightarrow> app \<Rightarrow> app" where
  "begin_fetch isMounted a = (if \<not> isMounted then a else a\<lparr>loading := True\<rparr>)"

definition settle ::
  "bool \<Rightarrow> string \<Rightarrow> response \<Rightarrow> response \<Rightarrow> response \<Rightarrow> response \<Rightarrow> app \<Rightarrow> app" where
  "settle isMounted m performanceRes signalsRes tradesRes positionsRes a =
     (let (thrown, a1) =
            (case fetched performanceRes signalsRes tradesRes positionsRes of
               Inl e \<Rightarrow> (Some e, a)
             | Inr (performanceJson, signalsJson, tradesJson, positionsJson) \<Rightarrow>
                 if \<not> isMounted then (None, a)
                 else commit_live m performanceJson signalsJson tradesJson positionsJson a);
          a2 = (case thrown of
                  None \<Rightarrow> a1
                | Some e \<Rightarrow> if \<not> isMounted then a1 else commit_fallback m a1)
      in if isMounted then a2\<lparr>loading := False\<rparr> else a2)"

text \<open>Line 132: the period of the timer.\<close>

definition intervalMs :: "source \<Rightarrow> nat" where
  "intervalMs ds = (if ds = Live then 1000 * 60 * 5 else 1000 * 60 * 15)"

text \<open>Lines 141--144, the second effect: the signals shown follow the selected model.\<close>

definition reset_signals :: "app \<Rightarrow> app" where
  "reset_signals a = a\<lparr>signals := fallbackSignals (selectedModel a)\<rparr>"

section \<open>The effect, its timer and the cycles in flight\<close>

text \<open>
  The first \<open>useEffect\<close> of \<open>App\<close> (lines 69--139) runs when the component mounts and
  again whenever \<open>selectedModel\<close> or \<open>dataSource\<close> has changed; before it runs again, and
  when the component unmounts, the cleanup of the previous run is called. Each run is a
  closure of its own, with its own \<open>isMounted\<close> flag, its own \<open>refreshInterval\<close> and the
  \<open>selectedModel\<close> it was created with; runs are told apart by a number.

  The world is the state of \<open>App\<close> together with what the runs have left behind: the runs
  whose flag is still true, the timers that are armed (run, model, period) and the calls
  of \<open>fetchDashboardData\<close> whose requests have not come back (run, model). \<open>current\<close> is
  the run whose cleanup is pending: none once the component has unmounted.
\<close>

record world =
  ui :: app
  alive :: "nat list"
  timers :: "(nat \<times> string \<times> nat) list"
  inflight :: "(nat \<times> string) list"
  current :: "nat option"
  fresh :: nat

text \<open>A call of \<open>fetchDashboardData\<close> by run \<open>i\<close>: line 74 returns when the flag is false.\<close>

definition begin_cycle :: "nat \<Rightarrow> string \<Rightarrow> world \<Rightarrow> world" where
  "begin_cycle i m w =
     (if i \<in> set (alive w)
      then w\<lparr>ui := begin_fetch True (ui w), inflight := inflight w @ [(i, m)]\<rparr>
      else w\<lparr>ui := begin_fetch False (ui w)\<rparr>)"

text \<open>
  A run of the effect: \<open>isMounted = true\<close>, the first call of \<open>fetchDashboardData\<close>
  (line 130), then \<open>setInterval\<close> with the period of the \<open>dataSource\<close> of this render
  (lines 132--133).
\<close>

definition run_effect :: "world \<Rightarrow> world" where
  "run_effect w =
     (let i = fresh w;
          m = selectedModel (ui w);
          ms = intervalMs (dataSource (ui w));
          w1 = begin_cycle i m (w\<lparr>alive := i # alive w, current := Some i, fresh := Suc i\<rparr>)
      in w1\<lparr>timers := (i, m, ms) # timers w1\<rparr>)"

text \<open>The cleanup (lines 135--138): \<open>isMounted = false; clearInterval(refreshInterval)\<close>.\<close>

definition cleanup :: "world \<Rightarrow> world" where
  "cleanup w =
     (case current w of
        None \<Rightarrow> w
      | Some i \<Rightarrow> w\<lparr>alive := removeAll i (alive w),
                     timers := filter (\<lambda>(j, m, ms). j \<noteq> i) (timers w),
                     current := None\<rparr>)"

text \<open>
  What can happen next: the timer of run \<open>i\<close> fires; the requests of the \<open>k\<close>-th call in
  flight come back; the user selects a model; the component unmounts.
\<close>

datatype event =
    Tick nat
  | Settle nat response response response response
  | Select string
  | Unmount

text \<open>The component as mounted: both effects have run once.\<close>

definition mounted_world :: world where
  "mounted_world =
     (let w = run_effect \<lparr> ui = app_init, alive = [], timers = [], inflight = [],
                           current = None, fresh = 0 \<rparr>
      in w\<lparr>ui := reset_signals (ui w)\<rparr>)"

fun step :: "event \<Rightarrow> world \<Rightarrow> world" where
  "step (Tick i) w =
     (case find (\<lambda>(j, m, ms). j = i) (timers w) of
        None \<Rightarrow> w
      | Some (j, m, ms) \<Rightarrow> begin_cycle j m w)"
| "step (Settle k performanceRes signalsRes tradesRes positionsRes) w =
     (if k < length (inflight w)
      then
        let (i, m) = inflight w ! k;
            a = settle (i \<in> set (alive w)) m performanceRes signalsRes tradesRes positionsRes
                  (ui w);
            w1 = w\<lparr>ui := a, inflight := take k (inflight w) @ drop (Suc k) (inflight w)\<rparr>
        in if current w \<noteq> None \<and> dataSource a \<noteq> dataSource (ui w)
           then run_effect (cleanup w1)
           else w1
      else w)"
| "step (Select m) w =
     (if current w = None \<or> m = selectedModel (ui w) then w
      else
        let w1 = run_effect (cleanup (w\<lparr>ui := (ui w)\<lparr>selectedModel := m\<rparr>\<rparr>))
        in w1\<lparr>ui := reset_signals (ui w1)\<rparr>)"
| "step Unmount w = cleanup w"

text \<open>A sequence of events, from the left.\<close>

definition run :: "event list \<Rightarrow> world \<Rightarrow> world" where
  "run evs w = fold step evs w"

section \<open>Vocabulary of the properties\<close>

text \<open>
  The value of a chain \<open>r.k1 ?? r.k2 ?? ... ?? d\<close> over a list of aliases, and a record
  none of whose aliases in a list is present (\<open>undefined\<close> or \<open>null\<close>).
\<close>

fun pick :: "jsval \<Rightarrow> string list \<Rightarrow> jsval \<Rightarrow> jsval" where
  "pick r [] d = d"
| "pick r (k # ks) d = nc (dot r k) (pick r ks d)"


text \<open>A record each of whose aliases in a list is missing or the number 0.\<close>

definition absent_or_zero :: "jsval \<Rightarrow> string list \<Rightarrow> bool" where
  "absent_or_zero r ks = list_all (\<lambda>k. nullish (dot r k) \<or> dot r k = VNum (Fin 0)) ks"

text \<open>The field \<open>k\<close> of what a normalizer returned; nothing when it threw.\<close>

definition returned :: "error + jsval \<Rightarrow> string \<Rightarrow> jsval option" where
  "returned res k = (case res of Inl e \<Rightarrow> None | Inr c \<Rightarrow> Some (dot c k))"

text \<open>
  A host for the examples: none of them has a field whose conversion is left to the host
  but a string that is not numeric, which \<open>Number\<close> turns into \<open>NaN\<close>.
\<close>

definition plain_host :: host where
  "plain_host = \<lparr> to_number = (\<lambda>v. NaN), to_string = (\<lambda>v. []) \<rparr>"

text \<open>The number a normalizer reads from a group of aliases: \<open>Number(r.k1 ?? ... ?? 0)\<close>.\<close>

definition raw_number :: "host \<Rightarrow> jsval \<Rightarrow> string list \<Rightarrow> jsnum" where
  "raw_number h r ks = Number_js h (pick r ks (VNum (Fin 0)))"

text \<open>The aliases of the two price fields of a position, as \<open>normalizePosition\<close> lists them.\<close>

definition avg_keys :: "string list" where
  "avg_keys = [''averagePrice'', ''avg_price'', ''avgEntryPrice'', ''avg_entry_price'']"

definition market_keys :: "string list" where
  "market_keys = [''marketPrice'', ''current_price'', ''currentPrice'', ''market_price'']"

text \<open>A value that is a finite number.\<close>

definition finite_number :: "jsval \<Rightarrow> bool" where
  "finite_number v = (case v of VNum n \<Rightarrow> isFinite n | _ \<Rightarrow> False)"


text \<open>
  A retrieval that fails: a network error, a status that is not a success, or a body that
  is not JSON. A retrieval that is readable: it came back \<open>ok\<close> with a JSON body other than
  \<open>null\<close> (reading a field of \<open>null\<close> throws, and the cycle ends in its \<open>catch\<close> block).
\<close>

definition failed :: "response \<Rightarrow> bool" where
  "failed r = (case r of Rejected \<Rightarrow> True | Response b bd \<Rightarrow> \<not> b \<or> bd = Malformed)"

definition readable :: "response \<Rightarrow> bool" where
  "readable r =
     (case r of
        Rejected \<Rightarrow> False
      | Response b bd \<Rightarrow> b \<and> (case bd of Malformed \<Rightarrow> False | Json v \<Rightarrow> \<not> nullish v))"

text \<open>The four entity collections of the state are the baseline dataset, for model \<open>m\<close>.\<close>

definition baseline :: "string \<Rightarrow> app \<Rightarrow> bool" where
  "baseline m a =
     (performance a = \<lparr> metrics = VObj mockPerformance_metrics,
                         equityCurve = VArr mockPerformance_equityCurve \<rparr>
      \<and> signals a = fallbackSignals m
      \<and> trades a = VArr mockTrades
      \<and> positions a = VArr mockPositions)"

text \<open>
  \<open>v?.length ? v : d\<close>, the choice the \<open>try\<close> block makes for the signals, the trades and
  the positions.
\<close>

definition nonempty_or :: "jsval \<Rightarrow> jsval \<Rightarrow> jsval" where
  "nonempty_or v d = (if truthy (opt_length v) then v else d)"

text \<open>
  The fallback controller in the words of the specification: two states, and the outcome
  of a gateway attempt.
\<close>

datatype outcome = Success | Failure

fun controller :: "source \<Rightarrow> outcome \<Rightarrow> source" where
  "controller Mock Success = Live"
| "controller Live Success = Live"
| "controller Live Failure = Mock"
| "controller Mock Failure = Mock"

definition gateway :: "response \<Rightarrow> response \<Rightarrow> response \<Rightarrow> response \<Rightarrow> outcome" where
  "gateway p s t q =
     (if readable p \<and> readable s \<and> readable t \<and> readable q then Success else Failure)"

text \<open>
  What holds of every world the component can reach: the one run of the effect that React
  holds is the only one whose flag is true, its timer is the only one armed, with the model
  and the period of the state as it is now; every cycle in flight belongs to a run that
  has started.
\<close>

definition coherent :: "world \<Rightarrow> bool" where
  "coherent w =
     ((case current w of
         None \<Rightarrow> alive w = [] \<and> timers w = []
       | Some i \<Rightarrow> alive w = [i] \<and> i < fresh w
           \<and> timers w = [(i, selectedModel (ui w), intervalMs (dataSource (ui w)))])
      \<and> list_all (\<lambda>(j, m). j < fresh w) (inflight w))"

section \<open>Lemmas on values\<close>

lemma nullish_simps [simp]:
  "nullish VUndef" "nullish VNull" "\<not> nullish (VBool b)" "\<not> nullish (VNum n)"
  "\<not> nullish (VStr s)" "\<not> nullish (VArr xs)" "\<not> nullish (VObj kvs)"
  by (simp_all add: nullish_def)

lemma nc_simps [simp]:
  "nullish a \<Longrightarrow> nc a b = b" "\<not> nullish a \<Longrightarrow> nc a b = a"
  by (simp_all add: nc_def)


lemma pick_not_nullish: "\<not> nullish d \<Longrightarrow> \<not> nullish (pick r ks d)"
  by (induction ks) (simp_all add: nc_def)

lemma pick_VNull: "nullish (pick r ks VNull) \<Longrightarrow> pick r ks VNull = VNull"
  by (induction ks) (auto simp add: nc_def split: if_splits)

lemma pick_absent_or_zero:
  "absent_or_zero r ks \<Longrightarrow> pick r ks (VNum (Fin 0)) = VNum (Fin 0)"
  by (induction ks) (auto simp add: absent_or_zero_def nc_def)

lemma Number_js_num [simp]: "Number_js h (VNum n) = n"
  by (simp add: Number_js_def)

lemma isFinite_iff: "isFinite n \<longleftrightarrow> (\<exists>q. n = Fin q)"
  by (cases n) simp_all

lemma upper_char_idem: "upper_char (upper_char c) = upper_char c"
proof (cases "97 \<le> (of_char c :: nat) \<and> (of_char c :: nat) \<le> 122")
  case True
  define n :: nat where "n = of_char c"
  have u: "upper_char c = char_of (n - 32)"
    using True by (simp add: upper_char_def n_def)
  have "(n - 32) mod 256 = n - 32"
    using True unfolding n_def by (intro mod_less) linarith
  then have "(of_char (char_of (n - 32) :: char) :: nat) = n - 32"
    by simp
  then have "upper_char (char_of (n - 32)) = char_of (n - 32)"
    using True unfolding upper_char_def n_def by simp arith
  with u show ?thesis by simp
next
  case False
  then have "upper_char c = c" unfolding upper_char_def by (simp only: if_False)
  then show ?thesis by simp
qed


lemma toUpperCase_Inr:
  "toUpperCase v = Inr s' \<longleftrightarrow> (\<exists>s. v = VStr s \<and> s' = map upper_char s)"
  by (cases v) auto

section \<open>The normalizers, field by field\<close>

lemma normalizeTrade_fields:
  assumes "\<not> nullish t" "pick t [''side'', ''action'', ''type''] (VStr ''HOLD'') = VStr s"
  shows "normalizeTrade h t = Inr (VObj
     [(''id'', pick t [''id'', ''trade_id'', ''order_id'']
         (VStr (String_js h (dot t ''symbol'') @ ''-'' @ String_js h (dot t ''timestamp'')))),
      (''timestamp'', pick t [''timestamp'', ''filled_at'', ''created_at''] VNull),
      (''symbol'', pick t [''symbol'', ''ticker''] (VStr placeholder)),
      (''side'', VStr (map upper_char s)),
      (''quantity'', VNum (let n = Number_js h (pick t [''quantity'', ''qty'', ''shares'']
         (VNum (Fin 0))) in if isFinite n then n else Fin 0)),
      (''price'', VNum (let n = Number_js h (pick t [''price'', ''fill_price'',
         ''filled_avg_price''] (VNum (Fin 0))) in if isFinite n then n else Fin 0)),
      (''pnl'', VNum (let n = Number_js h (pick t [''pnl'', ''profit'', ''realized_pl'']
         (VNum (Fin 0))) in if isFinite n then n else Fin 0)),
      (''model'', pick t [''model'', ''strategy''] (VStr ''AI Agent''))])"
  using assms by (simp add: normalizeTrade_def Let_def)

lemma normalizeTrade_Inr:
  "normalizeTrade h t = Inr c \<Longrightarrow>
     \<not> nullish t \<and> (\<exists>s. pick t [''side'', ''action'', ''type''] (VStr ''HOLD'') = VStr s)"
  by (auto simp add: normalizeTrade_def Let_def toUpperCase_Inr split: if_splits sum.splits)

lemma normalizeSignal_fields:
  assumes "\<not> nullish g" "pick g [''action'', ''side''] (VStr ''HOLD'') = VStr s"
  shows "normalizeSignal h g = Inr (VObj
     [(''symbol'', pick g [''symbol'', ''ticker''] (VStr placeholder)),
      (''action'', VStr (map upper_char s)),
      (''confidence'', VNum (let n = Number_js h (pick g [''confidence'', ''score'',
         ''signal_strength''] (VNum (Fin 0))) in if gt_one n then div100 n else n)),
      (''positionSize'', VNum (let n = Number_js h (pick g [''positionSize'', ''weight'',
         ''position_size''] (VNum (Fin 0))) in if gt_one n then div100 n else n)),
      (''thesis'', pick g [''thesis'', ''reason'', ''notes'']
         (VStr ''Signal details unavailable.''))])"
  using assms by (simp add: normalizeSignal_def Let_def)

lemma normalizeSignal_Inr:
  "normalizeSignal h g = Inr c \<Longrightarrow>
     \<not> nullish g \<and> (\<exists>s. pick g [''action'', ''side''] (VStr ''HOLD'') = VStr s)"
  by (auto simp add: normalizeSignal_def Let_def toUpperCase_Inr split: if_splits sum.splits)

lemma normalizePosition_fields:
  assumes "\<not> nullish p"
  shows "normalizePosition h p = Inr (VObj
     [(''symbol'', pick p [''symbol'', ''ticker'', ''asset''] (VStr placeholder)),
      (''quantity'', VNum (let n = Number_js h (pick p [''quantity'', ''qty'', ''shares'']
         (VNum (Fin 0))) in if isFinite n then n else Fin 0)),
      (''averagePrice'', VNum (let a = Number_js h (pick p [''averagePrice'', ''avg_price'',
         ''avgEntryPrice'', ''avg_entry_price''] (VNum (Fin 0)));
           m = Number_js h (pick p [''marketPrice'', ''current_price'', ''currentPrice'',
         ''market_price''] (VNum (Fin 0))) in
           if isFinite (or_num a m) then or_num a m else Fin 0)),
      (''marketPrice'', VNum (let a = Number_js h (pick p [''averagePrice'', ''avg_price'',
         ''avgEntryPrice'', ''avg_entry_price''] (VNum (Fin 0)));
           m = Number_js h (pick p [''marketPrice'', ''current_price'', ''currentPrice'',
         ''market_price''] (VNum (Fin 0))) in
           if isFinite (or_num m a) then or_num m a else Fin 0)),
      (''pnl'', VNum (let n = Number_js h (pick p [''unrealizedPnl'', ''unrealized_pl'',
         ''unrealized_pl'', ''pnl''] (VNum (Fin 0))) in if isFinite n then n else Fin 0)),
      (''pnlPercent'', VNum (let n = Number_js h (pick p [''unrealizedPnlPercent'',
         ''unrealized_plpc'', ''unrealized_pl_percent'', ''pnl_percent''] (VNum (Fin 0))) in
           if isFinite n then (if gt_one (abs_js n) then n else mul100 n) else Fin 0))])"
  using assms by (simp add: normalizePosition_def Let_def)

lemma normalizePosition_Inr: "normalizePosition h p = Inr c \<Longrightarrow> \<not> nullish p"
  by (auto simp add: normalizePosition_def split: if_splits)

lemma raw_absent_or_zero: "absent_or_zero r ks \<Longrightarrow> raw_number h r ks = Fin 0"
  by (simp add: raw_number_def pick_absent_or_zero)


lemma position_prices:
  assumes "normalizePosition h p = Inr c"
  shows "dot c ''averagePrice'' =
           VNum (let a = raw_number h p avg_keys; m = raw_number h p market_keys
                 in if isFinite (or_num a m) then or_num a m else Fin 0)"
    and "dot c ''marketPrice'' =
           VNum (let a = raw_number h p avg_keys; m = raw_number h p market_keys
                 in if isFinite (or_num m a) then or_num m a else Fin 0)"
  using normalizePosition_fields [OF normalizePosition_Inr [OF assms], of h] assms
  by (simp_all add: raw_number_def avg_keys_def market_keys_def Let_def del: pick.simps)

section \<open>The scale rule of percentage-like fields\<close>




section \<open>Substitution of the price fields of a position\<close>

text \<open>
  C10, as stated, fails in its last part: both price fields are 0 for a position whose
  average price is present and not zero, when that price is not finite (the JSON number
  \<open>1e999\<close> is parsed as \<open>Infinity\<close>) and no market price is given.
\<close>

theorem price_counterexample:
  "returned (normalizePosition plain_host (VObj [(''symbol'', VStr ''AAPL''),
      (''avg_price'', VNum PInf)])) ''averagePrice'' = Some (VNum (Fin 0))
   \<and> returned (normalizePosition plain_host (VObj [(''symbol'', VStr ''AAPL''),
      (''avg_price'', VNum PInf)])) ''marketPrice'' = Some (VNum (Fin 0))
   \<and> \<not> absent_or_zero (VObj [(''symbol'', VStr ''AAPL''), (''avg_price'', VNum PInf)])
        avg_keys"
  by (simp add: normalizePosition_def returned_def Let_def or_num_def truthy_num_def
      absent_or_zero_def avg_keys_def)

text \<open>
  C10, amended. For every position that \<open>normalizePosition\<close> returns from: if every
  average-price alias is missing or 0 and the market price read is a finite number, both
  canonical prices are that market price; symmetrically if every market-price alias is
  missing or 0 and the average price read is finite; and both canonical prices are 0
  exactly when neither group reads as a finite number other than 0 (each is absent, zero,
  \<open>NaN\<close> or infinite).
\<close>

theorem price_substitution:
  assumes "normalizePosition h p = Inr c"
  shows "(absent_or_zero p avg_keys \<and> raw_number h p market_keys = Fin m
            \<longrightarrow> dot c ''averagePrice'' = VNum (Fin m) \<and> dot c ''marketPrice'' = VNum (Fin m))
       \<and> (absent_or_zero p market_keys \<and> raw_number h p avg_keys = Fin a
            \<longrightarrow> dot c ''marketPrice'' = VNum (Fin a) \<and> dot c ''averagePrice'' = VNum (Fin a))
       \<and> ((dot c ''averagePrice'' = VNum (Fin 0) \<and> dot c ''marketPrice'' = VNum (Fin 0))
            \<longleftrightarrow> (\<forall>q. q \<noteq> 0 \<longrightarrow> raw_number h p avg_keys \<noteq> Fin q
                       \<and> raw_number h p market_keys \<noteq> Fin q))"
proof -
  note pr = position_prices [OF assms]
  have 1: "dot c ''averagePrice'' = VNum (Fin m) \<and> dot c ''marketPrice'' = VNum (Fin m)"
    if "absent_or_zero p avg_keys" "raw_number h p market_keys = Fin m"
    using pr that raw_absent_or_zero [OF that(1), of h]
    by (simp add: Let_def or_num_def truthy_num_def)
  have 2: "dot c ''marketPrice'' = VNum (Fin a) \<and> dot c ''averagePrice'' = VNum (Fin a)"
    if "absent_or_zero p market_keys" "raw_number h p avg_keys = Fin a"
    using pr that raw_absent_or_zero [OF that(1), of h]
    by (simp add: Let_def or_num_def truthy_num_def)
  have 3: "(dot c ''averagePrice'' = VNum (Fin 0) \<and> dot c ''marketPrice'' = VNum (Fin 0))
            \<longleftrightarrow> (\<forall>q. q \<noteq> 0 \<longrightarrow> raw_number h p avg_keys \<noteq> Fin q
                       \<and> raw_number h p market_keys \<noteq> Fin q)"
    unfolding pr
    by (cases "raw_number h p avg_keys"; cases "raw_number h p market_keys")
       (auto simp add: Let_def or_num_def truthy_num_def)
  from 1 2 3 show ?thesis by blast
qed

text \<open>
  The amended claim at the position of the specification's scenario with its average price
  reported as 0, and at a position that reports an entry price only.
\<close>

theorem price_substitution_witness:
  "normalizePosition plain_host (VObj [(''symbol'', VStr ''AAPL''), (''qty'', VNum (Fin 50)),
       (''avg_price'', VNum (Fin 0)), (''current_price'', VNum (Fin 182.25))])
     = Inr (VObj [(''symbol'', VStr ''AAPL''), (''quantity'', VNum (Fin 50)),
         (''averagePrice'', VNum (Fin 182.25)), (''marketPrice'', VNum (Fin 182.25)),
         (''pnl'', VNum (Fin 0)), (''pnlPercent'', VNum (Fin 0))])
   \<and> absent_or_zero (VObj [(''symbol'', VStr ''AAPL''), (''qty'', VNum (Fin 50)),
       (''avg_price'', VNum (Fin 0)), (''current_price'', VNum (Fin 182.25))]) avg_keys
   \<and> raw_number plain_host (VObj [(''symbol'', VStr ''AAPL''), (''qty'', VNum (Fin 50)),
       (''avg_price'', VNum (Fin 0)), (''current_price'', VNum (Fin 182.25))]) market_keys
       = Fin 182.25
   \<and> normalizePosition plain_host (VObj [(''symbol'', VStr ''MSFT''),
       (''avg_entry_price'', VNum (Fin 406.1))])
     = Inr (VObj [(''symbol'', VStr ''MSFT''), (''quantity'', VNum (Fin 0)),
         (''averagePrice'', VNum (Fin 406.1)), (''marketPrice'', VNum (Fin 406.1)),
         (''pnl'', VNum (Fin 0)), (''pnlPercent'', VNum (Fin 0))])
   \<and> absent_or_zero (VObj [(''symbol'', VStr ''MSFT''),
       (''avg_entry_price'', VNum (Fin 406.1))]) market_keys
   \<and> raw_number plain_host (VObj [(''symbol'', VStr ''MSFT''),
       (''avg_entry_price'', VNum (Fin 406.1))]) avg_keys = Fin 406.1
   \<and> dot (VObj [(''symbol'', VStr ''AAPL''), (''quantity'', VNum (Fin 50)),
         (''averagePrice'', VNum (Fin 182.25)), (''marketPrice'', VNum (Fin 182.25)),
         (''pnl'', VNum (Fin 0)), (''pnlPercent'', VNum (Fin 0))]) ''averagePrice''
       = VNum (Fin 182.25)
   \<and> dot (VObj [(''symbol'', VStr ''MSFT''), (''quantity'', VNum (Fin 0)),
         (''averagePrice'', VNum (Fin 406.1)), (''marketPrice'', VNum (Fin 406.1)),
         (''pnl'', VNum (Fin 0)), (''pnlPercent'', VNum (Fin 0))]) ''marketPrice''
       = VNum (Fin 406.1)"
proof -
  let ?p = "VObj [(''symbol'', VStr ''AAPL''), (''qty'', VNum (Fin 50)),
       (''avg_price'', VNum (Fin 0)), (''current_price'', VNum (Fin 182.25))]"
  let ?c = "VObj [(''symbol'', VStr ''AAPL''), (''quantity'', VNum (Fin 50)),
         (''averagePrice'', VNum (Fin 182.25)), (''marketPrice'', VNum (Fin 182.25)),
         (''pnl'', VNum (Fin 0)), (''pnlPercent'', VNum (Fin 0))]"
  let ?p' = "VObj [(''symbol'', VStr ''MSFT''), (''avg_entry_price'', VNum (Fin 406.1))]"
  let ?c' = "VObj [(''symbol'', VStr ''MSFT''), (''quantity'', VNum (Fin 0)),
         (''averagePrice'', VNum (Fin 406.1)), (''marketPrice'', VNum (Fin 406.1)),
         (''pnl'', VNum (Fin 0)), (''pnlPercent'', VNum (Fin 0))]"
  have p: "normalizePosition plain_host ?p = Inr ?c"
    by (simp add: normalizePosition_def Let_def or_num_def truthy_num_def)
  have a: "absent_or_zero ?p avg_keys"
    by (simp add: absent_or_zero_def avg_keys_def)
  have m: "raw_number plain_host ?p market_keys = Fin 182.25"
    by (simp add: raw_number_def market_keys_def)
  have p': "normalizePosition plain_host ?p' = Inr ?c'"
    by (simp add: normalizePosition_def Let_def or_num_def truthy_num_def)
  have a': "absent_or_zero ?p' market_keys"
    by (simp add: absent_or_zero_def market_keys_def)
  have m': "raw_number plain_host ?p' avg_keys = Fin 406.1"
    by (simp add: raw_number_def avg_keys_def)
  from price_substitution [OF p, of "182.25"] price_substitution [OF p', of _ "406.1"]
    p a m p' a' m'
  show ?thesis by blast
qed

section \<open>Normalizing a canonical record again\<close>

text \<open>
  C5, as stated, fails: \<open>normalizePosition\<close> writes the percentage under the key
  \<open>pnlPercent\<close>, which is none of the aliases it reads. The first sample position is
  normalized to a record with \<open>pnlPercent\<close> 3.12; normalizing that record again returns
  \<open>pnlPercent\<close> 0.
\<close>

theorem position_renormalize_counterexample:
  "normalizePosition plain_host (VObj [(''symbol'', VStr ''AAPL''), (''quantity'', VNum (Fin 80)),
       (''averagePrice'', VNum (Fin 176.25)), (''marketPrice'', VNum (Fin 182.34)),
       (''unrealizedPnl'', VNum (Fin 487.2)), (''unrealizedPnlPercent'', VNum (Fin 3.12))])
     = Inr (VObj [(''symbol'', VStr ''AAPL''), (''quantity'', VNum (Fin 80)),
         (''averagePrice'', VNum (Fin 176.25)), (''marketPrice'', VNum (Fin 182.34)),
         (''pnl'', VNum (Fin 487.2)), (''pnlPercent'', VNum (Fin 3.12))])
   \<and> normalizePosition plain_host (VObj [(''symbol'', VStr ''AAPL''),
         (''quantity'', VNum (Fin 80)),
         (''averagePrice'', VNum (Fin 176.25)), (''marketPrice'', VNum (Fin 182.34)),
         (''pnl'', VNum (Fin 487.2)), (''pnlPercent'', VNum (Fin 3.12))])
     = Inr (VObj [(''symbol'', VStr ''AAPL''), (''quantity'', VNum (Fin 80)),
         (''averagePrice'', VNum (Fin 176.25)), (''marketPrice'', VNum (Fin 182.34)),
         (''pnl'', VNum (Fin 487.2)), (''pnlPercent'', VNum (Fin 0))])"
  by (simp add: normalizePosition_def Let_def or_num_def truthy_num_def)

text \<open>
  A signal whose raw confidence is above 100 stays above 1 after one division, and is
  divided again by a second normalization.
\<close>

lemma signal_renormalize_example:
  "normalizeSignal plain_host (VObj [(''symbol'', VStr ''XOM''), (''action'', VStr ''BUY''),
       (''confidence'', VNum (Fin 500))])
     = Inr (VObj [(''symbol'', VStr ''XOM''), (''action'', VStr ''BUY''),
         (''confidence'', VNum (Fin 5)), (''positionSize'', VNum (Fin 0)),
         (''thesis'', VStr ''Signal details unavailable.'')])
   \<and> normalizeSignal plain_host (VObj [(''symbol'', VStr ''XOM''), (''action'', VStr ''BUY''),
         (''confidence'', VNum (Fin 5)), (''positionSize'', VNum (Fin 0)),
         (''thesis'', VStr ''Signal details unavailable.'')])
     = Inr (VObj [(''symbol'', VStr ''XOM''), (''action'', VStr ''BUY''),
         (''confidence'', VNum (Fin 0.05)), (''positionSize'', VNum (Fin 0)),
         (''thesis'', VStr ''Signal details unavailable.'')])"
  by code_simp

lemma trade_renormalize: "normalizeTrade h t = Inr c \<Longrightarrow> normalizeTrade h c = Inr c"
proof -
  assume a: "normalizeTrade h t = Inr c"
  from normalizeTrade_Inr [OF a] obtain s where
    nn: "\<not> nullish t" and s: "pick t [''side'', ''action'', ''type''] (VStr ''HOLD'') = VStr s"
    by blast
  have c: "c = VObj
     [(''id'', pick t [''id'', ''trade_id'', ''order_id'']
                 (VStr (String_js h (dot t ''symbol'') @ ''-'' @ String_js h (dot t ''timestamp'')))),
      (''timestamp'', pick t [''timestamp'', ''filled_at'', ''created_at''] VNull),
      (''symbol'', pick t [''symbol'', ''ticker''] (VStr placeholder)),
      (''side'', VStr (map upper_char s)),
      (''quantity'', VNum (let n = Number_js h (pick t [''quantity'', ''qty'', ''shares''] (VNum (Fin 0))) in if isFinite n then n else Fin 0)),
      (''price'', VNum (let n = Number_js h (pick t [''price'', ''fill_price'', ''filled_avg_price''] (VNum (Fin 0))) in if isFinite n then n else Fin 0)),
      (''pnl'', VNum (let n = Number_js h (pick t [''pnl'', ''profit'', ''realized_pl''] (VNum (Fin 0))) in if isFinite n then n else Fin 0)),
      (''model'', pick t [''model'', ''strategy''] (VStr ''AI Agent''))]"
    (is "c = VObj [(_, ?i), (_, ?ts), (_, ?sy), _, _, _, _, (_, ?m)]")
    using a normalizeTrade_fields [OF nn s, of h] by simp
  have i: "\<not> nullish ?i" by (rule pick_not_nullish) simp
  have sy: "\<not> nullish ?sy" by (rule pick_not_nullish) simp
  have m: "\<not> nullish ?m" by (rule pick_not_nullish) simp
  have ts: "nc ?ts VNull = ?ts"
    using pick_VNull [of t "[''timestamp'', ''filled_at'', ''created_at'']"] by (auto simp: nc_def)
  show ?thesis
    unfolding c using i sy m ts
    by (simp add: normalizeTrade_def Let_def upper_char_idem del: pick.simps)
qed

lemma signal_renormalize:
  assumes "normalizeSignal h g = Inr d"
    and "dot d ''confidence'' = VNum x" "\<not> gt_one x"
    and "dot d ''positionSize'' = VNum y" "\<not> gt_one y"
  shows "normalizeSignal h d = Inr d"
proof -
  from normalizeSignal_Inr [OF assms(1)] obtain s where
    nn: "\<not> nullish g" and s: "pick g [''action'', ''side''] (VStr ''HOLD'') = VStr s"
    by blast
  have d: "d = VObj
     [(''symbol'', pick g [''symbol'', ''ticker''] (VStr placeholder)),
      (''action'', VStr (map upper_char s)),
      (''confidence'', VNum x),
      (''positionSize'', VNum y),
      (''thesis'', pick g [''thesis'', ''reason'', ''notes'']
         (VStr ''Signal details unavailable.''))]"
    (is "d = VObj [(_, ?sy), _, _, _, (_, ?th)]")
    using assms normalizeSignal_fields [OF nn s, of h] by (auto simp del: pick.simps)
  have sy: "\<not> nullish ?sy" by (rule pick_not_nullish) simp
  have th: "\<not> nullish ?th" by (rule pick_not_nullish) simp
  show ?thesis
    unfolding d using sy th assms(3,5)
    by (simp add: normalizeSignal_def Let_def upper_char_idem del: pick.simps)
qed

lemma position_renormalize:
  assumes "normalizePosition h p = Inr e"
  shows "\<exists>a m. dot e ''averagePrice'' = VNum (Fin a) \<and> dot e ''marketPrice'' = VNum (Fin m)
     \<and> normalizePosition h e = Inr (VObj
         [(''symbol'', dot e ''symbol''),
          (''quantity'', dot e ''quantity''),
          (''averagePrice'', VNum (Fin (if a = 0 then m else a))),
          (''marketPrice'', VNum (Fin (if m = 0 then a else m))),
          (''pnl'', dot e ''pnl''),
          (''pnlPercent'', VNum (Fin 0))])"
proof -
  have nn: "\<not> nullish p" by (rule normalizePosition_Inr [OF assms])
  note f = normalizePosition_fields [OF nn, of h]
  obtain sy qn a m pn pp where e: "e = VObj [(''symbol'', sy), (''quantity'', VNum (Fin qn)),
      (''averagePrice'', VNum (Fin a)), (''marketPrice'', VNum (Fin m)),
      (''pnl'', VNum (Fin pn)), (''pnlPercent'', VNum pp)]" and sy: "\<not> nullish sy"
  proof -
    let ?sy = "pick p [''symbol'', ''ticker'', ''asset''] (VStr placeholder)"
    have "\<not> nullish ?sy" by (rule pick_not_nullish) simp
    moreover from f assms have "\<exists>qn a m pn pp. e = VObj [(''symbol'', ?sy), (''quantity'', VNum (Fin qn)),
      (''averagePrice'', VNum (Fin a)), (''marketPrice'', VNum (Fin m)),
      (''pnl'', VNum (Fin pn)), (''pnlPercent'', VNum pp)]"
      by (simp add: Let_def isFinite_iff del: pick.simps)
    ultimately show ?thesis using that by blast
  qed
  show ?thesis
    unfolding e using sy
    by (simp add: normalizePosition_def Let_def or_num_def truthy_num_def)
qed

text \<open>
  C5, amended. Normalizing a canonical trade again returns it unchanged. Normalizing a
  canonical signal again returns it unchanged when neither its confidence nor its position
  size is above 1. Normalizing a canonical position again keeps its symbol, quantity and
  profit-and-loss, replaces a price that is 0 by the other price, and returns \<open>pnlPercent\<close> 0.
\<close>

theorem renormalize:
  "(normalizeTrade h t = Inr c \<longrightarrow> normalizeTrade h c = Inr c)
   \<and> (normalizeSignal h g = Inr d
        \<and> dot d ''confidence'' = VNum x \<and> \<not> gt_one x
        \<and> dot d ''positionSize'' = VNum y \<and> \<not> gt_one y
      \<longrightarrow> normalizeSignal h d = Inr d)
   \<and> (normalizePosition h p = Inr e
      \<longrightarrow> (\<exists>a m. dot e ''averagePrice'' = VNum (Fin a) \<and> dot e ''marketPrice'' = VNum (Fin m)
            \<and> normalizePosition h e = Inr (VObj
                 [(''symbol'', dot e ''symbol''),
                  (''quantity'', dot e ''quantity''),
                  (''averagePrice'', VNum (Fin (if a = 0 then m else a))),
                  (''marketPrice'', VNum (Fin (if m = 0 then a else m))),
                  (''pnl'', dot e ''pnl''),
                  (''pnlPercent'', VNum (Fin 0))])))"
  using trade_renormalize [of h t c] signal_renormalize [of h g d x y]
    position_renormalize [of h p e]
  by blast

text \<open>
  The amended claim at a trade, a signal and a position that come with lower-case sides,
  alias keys and a percentage on the 0--100 scale.
\<close>

theorem renormalize_witness:
  "normalizeTrade plain_host (VObj [(''trade_id'', VStr ''TRD-10566''),
       (''filled_at'', VStr ''2025-11-10T13:02:00Z''), (''ticker'', VStr ''NVDA''),
       (''action'', VStr ''sell''), (''qty'', VNum (Fin 10)), (''fill_price'', VNum (Fin 488.65)),
       (''profit'', VNum (Fin 325.4)), (''strategy'', VStr ''Tech Sector Agent'')])
     = Inr (VObj [(''id'', VStr ''TRD-10566''), (''timestamp'', VStr ''2025-11-10T13:02:00Z''),
         (''symbol'', VStr ''NVDA''), (''side'', VStr ''SELL''), (''quantity'', VNum (Fin 10)),
         (''price'', VNum (Fin 488.65)), (''pnl'', VNum (Fin 325.4)),
         (''model'', VStr ''Tech Sector Agent'')])
   \<and> normalizeTrade plain_host (VObj [(''id'', VStr ''TRD-10566''),
         (''timestamp'', VStr ''2025-11-10T13:02:00Z''),
         (''symbol'', VStr ''NVDA''), (''side'', VStr ''SELL''), (''quantity'', VNum (Fin 10)),
         (''price'', VNum (Fin 488.65)), (''pnl'', VNum (Fin 325.4)),
         (''model'', VStr ''Tech Sector Agent'')])
     = Inr (VObj [(''id'', VStr ''TRD-10566''), (''timestamp'', VStr ''2025-11-10T13:02:00Z''),
         (''symbol'', VStr ''NVDA''), (''side'', VStr ''SELL''), (''quantity'', VNum (Fin 10)),
         (''price'', VNum (Fin 488.65)), (''pnl'', VNum (Fin 325.4)),
         (''model'', VStr ''Tech Sector Agent'')])
   \<and> normalizeSignal plain_host (VObj [(''ticker'', VStr ''NVDA''), (''side'', VStr ''buy''),
       (''score'', VNum (Fin 79)), (''weight'', VNum (Fin 0.18))])
     = Inr (VObj [(''symbol'', VStr ''NVDA''), (''action'', VStr ''BUY''),
         (''confidence'', VNum (Fin 0.79)), (''positionSize'', VNum (Fin 0.18)),
         (''thesis'', VStr ''Signal details unavailable.'')])
   \<and> \<not> gt_one (Fin 0.79) \<and> \<not> gt_one (Fin 0.18)
   \<and> normalizeSignal plain_host (VObj [(''symbol'', VStr ''NVDA''), (''action'', VStr ''BUY''),
         (''confidence'', VNum (Fin 0.79)), (''positionSize'', VNum (Fin 0.18)),
         (''thesis'', VStr ''Signal details unavailable.'')])
     = Inr (VObj [(''symbol'', VStr ''NVDA''), (''action'', VStr ''BUY''),
         (''confidence'', VNum (Fin 0.79)), (''positionSize'', VNum (Fin 0.18)),
         (''thesis'', VStr ''Signal details unavailable.'')])
   \<and> normalizePosition plain_host (VObj [(''symbol'', VStr ''AAPL''), (''qty'', VNum (Fin 50)),
       (''avg_price'', VNum (Fin 178.5)), (''current_price'', VNum (Fin 182.25)),
       (''unrealized_plpc'', VNum (Fin 0.021))])
     = Inr (VObj [(''symbol'', VStr ''AAPL''), (''quantity'', VNum (Fin 50)),
         (''averagePrice'', VNum (Fin 178.5)), (''marketPrice'', VNum (Fin 182.25)),
         (''pnl'', VNum (Fin 0)), (''pnlPercent'', VNum (Fin 2.1))])
   \<and> normalizePosition plain_host (VObj [(''symbol'', VStr ''AAPL''),
         (''quantity'', VNum (Fin 50)),
         (''averagePrice'', VNum (Fin 178.5)), (''marketPrice'', VNum (Fin 182.25)),
         (''pnl'', VNum (Fin 0)), (''pnlPercent'', VNum (Fin 2.1))])
     = Inr (VObj [(''symbol'', VStr ''AAPL''), (''quantity'', VNum (Fin 50)),
         (''averagePrice'', VNum (Fin 178.5)), (''marketPrice'', VNum (Fin 182.25)),
         (''pnl'', VNum (Fin 0)), (''pnlPercent'', VNum (Fin 0))])"
proof -
  let ?t = "VObj [(''trade_id'', VStr ''TRD-10566''),
       (''filled_at'', VStr ''2025-11-10T13:02:00Z''), (''ticker'', VStr ''NVDA''),
       (''action'', VStr ''sell''), (''qty'', VNum (Fin 10)), (''fill_price'', VNum (Fin 488.65)),
       (''profit'', VNum (Fin 325.4)), (''strategy'', VStr ''Tech Sector Agent'')]"
  let ?c = "VObj [(''id'', VStr ''TRD-10566''), (''timestamp'', VStr ''2025-11-10T13:02:00Z''),
         (''symbol'', VStr ''NVDA''), (''side'', VStr ''SELL''), (''quantity'', VNum (Fin 10)),
         (''price'', VNum (Fin 488.65)), (''pnl'', VNum (Fin 325.4)),
         (''model'', VStr ''Tech Sector Agent'')]"
  let ?g = "VObj [(''ticker'', VStr ''NVDA''), (''side'', VStr ''buy''),
       (''score'', VNum (Fin 79)), (''weight'', VNum (Fin 0.18))]"
  let ?d = "VObj [(''symbol'', VStr ''NVDA''), (''action'', VStr ''BUY''),
         (''confidence'', VNum (Fin 0.79)), (''positionSize'', VNum (Fin 0.18)),
         (''thesis'', VStr ''Signal details unavailable.'')]"
  let ?p = "VObj [(''symbol'', VStr ''AAPL''), (''qty'', VNum (Fin 50)),
       (''avg_price'', VNum (Fin 178.5)), (''current_price'', VNum (Fin 182.25)),
       (''unrealized_plpc'', VNum (Fin 0.021))]"
  let ?e = "VObj [(''symbol'', VStr ''AAPL''), (''quantity'', VNum (Fin 50)),
         (''averagePrice'', VNum (Fin 178.5)), (''marketPrice'', VNum (Fin 182.25)),
         (''pnl'', VNum (Fin 0)), (''pnlPercent'', VNum (Fin 2.1))]"
  have t: "normalizeTrade plain_host ?t = Inr ?c" by code_simp
  have g: "normalizeSignal plain_host ?g = Inr ?d" by code_simp
  have x: "dot ?d ''confidence'' = VNum (Fin 0.79)" "\<not> gt_one (Fin 0.79)"
    "dot ?d ''positionSize'' = VNum (Fin 0.18)" "\<not> gt_one (Fin 0.18)"
    by simp_all
  have p: "normalizePosition plain_host ?p = Inr ?e"
    by (simp add: normalizePosition_def Let_def or_num_def truthy_num_def)
  note r = renormalize [of plain_host ?t ?c ?g ?d "Fin 0.79" "Fin 0.18" ?p ?e]
  from r t have 1: "normalizeTrade plain_host ?c = Inr ?c" by blast
  from r g x have 2: "normalizeSignal plain_host ?d = Inr ?d" by blast
  from r p obtain a m where
    "dot ?e ''averagePrice'' = VNum (Fin a)" "dot ?e ''marketPrice'' = VNum (Fin m)"
    and e: "normalizePosition plain_host ?e = Inr (VObj
                 [(''symbol'', dot ?e ''symbol''),
                  (''quantity'', dot ?e ''quantity''),
                  (''averagePrice'', VNum (Fin (if a = 0 then m else a))),
                  (''marketPrice'', VNum (Fin (if m = 0 then a else m))),
                  (''pnl'', dot ?e ''pnl''),
                  (''pnlPercent'', VNum (Fin 0))])"
    by blast
  then have "a = 178.5" "m = 182.25" by simp_all
  with e have 3: "normalizePosition plain_host ?e = Inr (VObj [(''symbol'', VStr ''AAPL''),
         (''quantity'', VNum (Fin 50)),
         (''averagePrice'', VNum (Fin 178.5)), (''marketPrice'', VNum (Fin 182.25)),
         (''pnl'', VNum (Fin 0)), (''pnlPercent'', VNum (Fin 0))])"
    by simp
  from t g x p 1 2 3 show ?thesis by blast
qed

section \<open>Defaults of the normalizers\<close>


text \<open>
  \<open>normalizeSignal\<close>, unlike the other two normalizers, does not test its numbers with
  \<open>Number.isFinite\<close>: a confidence that is not finite is returned as it is.
\<close>

lemma signal_confidence_not_finite_example:
  "returned (normalizeSignal plain_host (VObj [(''symbol'', VStr ''AAPL''),
       (''action'', VStr ''BUY''), (''confidence'', VNum PInf)])) ''confidence''
     = Some (VNum PInf)
   \<and> returned (normalizeSignal plain_host (VObj [(''symbol'', VStr ''AAPL''),
       (''action'', VStr ''BUY''), (''confidence'', VNum NaN)])) ''confidence''
     = Some (VNum NaN)"
  by (simp add: normalizeSignal_def returned_def Let_def)

lemma finite_number_simps [simp]:
  "finite_number (VNum (Fin q))" "finite_number (VNum (if isFinite n then n else Fin 0))"
  by (cases n; simp add: finite_number_def)+







section \<open>One refresh cycle\<close>

lemma spread_copy: "spread [] mockPerformance_metrics = mockPerformance_metrics"
  by (simp add: spread_def mockPerformance_metrics_def)

lemma failed_fetched:
  assumes "failed p \<or> failed s \<or> failed t \<or> failed q"
  shows "\<exists>e. fetched p s t q = Inl e"
  using assms
  by (cases p; cases s; cases t; cases q)
     (auto simp add: fetched_def failed_def split: sum.splits body.splits)

lemma baseline_commit_fallback: "baseline m (commit_fallback m a)"
  by (simp add: baseline_def commit_fallback_def spread_copy)

lemma baseline_loading: "baseline m (a\<lparr>loading := b\<rparr>) = baseline m a"
  by (simp add: baseline_def)

lemma commit_live_thrown:
  "commit_live m pj sj tj qj a = (Some e, a1) \<Longrightarrow>
     nullish pj \<or> nullish sj \<or> nullish tj \<or> nullish qj"
  by (auto simp add: commit_live_def Let_def split: if_splits)

lemma commit_live_done:
  "\<not> nullish pj \<Longrightarrow> \<not> nullish sj \<Longrightarrow> \<not> nullish tj \<Longrightarrow> \<not> nullish qj \<Longrightarrow>
   commit_live m pj sj tj qj a =
     (None, a\<lparr>performance := \<lparr> metrics = VObj (live_metrics pj),
                                  equityCurve = live_equityCurve pj \<rparr>,
              signals := nonempty_or (dot sj ''signals'') (fallbackSignals m),
              trades := nonempty_or (dot tj ''trades'') (VArr mockTrades),
              positions := nonempty_or (dot qj ''positions'') (VArr mockPositions),
              dataSource := Live\<rparr>)"
  by (simp add: commit_live_def Let_def nonempty_or_def)

lemma settle_failed:
  assumes "fetched p s t q = Inl e"
  shows "settle isMounted m p s t q a =
           (if isMounted then (commit_fallback m a)\<lparr>loading := False\<rparr> else a)"
  using assms by (simp add: settle_def)

lemma settle_stale: "settle False m p s t q a = a"
  by (simp add: settle_def split: sum.splits prod.splits)

lemma readable_fetched:
  "readable p \<and> readable s \<and> readable t \<and> readable q \<longleftrightarrow>
     (\<exists>pj sj tj qj. fetched p s t q = Inr (pj, sj, tj, qj)
        \<and> \<not> nullish pj \<and> \<not> nullish sj \<and> \<not> nullish tj \<and> \<not> nullish qj)"
  by (cases p; cases s; cases t; cases q)
     (auto simp add: fetched_def readable_def split: sum.splits body.splits)

lemma settle_success:
  assumes "gateway p s t q = Success"
  shows "\<exists>pj sj tj qj. fetched p s t q = Inr (pj, sj, tj, qj) \<and>
     settle True m p s t q a =
       a\<lparr>performance := \<lparr> metrics = VObj (live_metrics pj),
                                  equityCurve = live_equityCurve pj \<rparr>,
              signals := nonempty_or (dot sj ''signals'') (fallbackSignals m),
              trades := nonempty_or (dot tj ''trades'') (VArr mockTrades),
              positions := nonempty_or (dot qj ''positions'') (VArr mockPositions),
              dataSource := Live, loading := False\<rparr>"
proof -
  from assms have "readable p \<and> readable s \<and> readable t \<and> readable q"
    by (simp add: gateway_def split: if_splits)
  then obtain pj sj tj qj where f: "fetched p s t q = Inr (pj, sj, tj, qj)"
    and n: "\<not> nullish pj" "\<not> nullish sj" "\<not> nullish tj" "\<not> nullish qj"
    unfolding readable_fetched by blast
  show ?thesis
    using f commit_live_done [OF n, of m a] by (simp add: settle_def)
qed

lemma commit_live_thrown_state:
  "commit_live m pj sj tj qj a = (Some e, a1) \<Longrightarrow> commit_fallback m a1 = commit_fallback m a"
  by (auto simp add: commit_live_def commit_fallback_def Let_def split: if_splits)

lemma settle_failure:
  assumes "gateway p s t q = Failure"
  shows "settle True m p s t q a = (commit_fallback m a)\<lparr>loading := False\<rparr>"
proof (cases "fetched p s t q")
  case (Inl e)
  then show ?thesis by (simp add: settle_failed)
next
  case (Inr r)
  obtain pj sj tj qj where r: "r = (pj, sj, tj, qj)" by (cases r) auto
  from assms have "\<not> (readable p \<and> readable s \<and> readable t \<and> readable q)"
    by (simp add: gateway_def split: if_splits)
  with Inr r have nn: "nullish pj \<or> nullish sj \<or> nullish tj \<or> nullish qj"
    unfolding readable_fetched by auto
  obtain th a1 where c: "commit_live m pj sj tj qj a = (th, a1)" by (cases "commit_live m pj sj tj qj a") auto
  from nn c have "th = Some TypeError"
    by (auto simp add: commit_live_def Let_def split: if_splits)
  with c Inr r commit_live_thrown_state [of m pj sj tj qj a TypeError a1]
  show ?thesis by (simp add: settle_def)
qed

lemma nonempty_or_simps:
  "nonempty_or (VArr (x # xs)) d = VArr (x # xs)" "nonempty_or (VArr []) d = d"
  "nonempty_or VUndef d = d" "nonempty_or VNull d = d"
  by (simp_all add: nonempty_or_def opt_length_def truthy_num_def)

lemma gateway_failed:
  "failed p \<or> failed s \<or> failed t \<or> failed q \<Longrightarrow> gateway p s t q = Failure"
  by (cases p; cases s; cases t; cases q)
     (auto simp add: gateway_def failed_def readable_def split: body.splits)

text \<open>
  C1. When one of the four retrievals fails (the request is rejected, the status is not a
  success, or the body is not JSON), the \<open>try\<close> block of the cycle throws before any
  setter has run: the cycle is a failure. A cycle whose effect is still mounted when it
  settles then repopulates all four collections from the baseline dataset and shows the
  sample-data state; a cycle whose effect has been cleaned up writes nothing. In neither
  case does live data of the cycle reach the state.
\<close>

theorem all_or_nothing:
  assumes "failed p \<or> failed s \<or> failed t \<or> failed q"
  shows "(\<exists>e. fetched p s t q = Inl e)
     \<and> gateway p s t q = Failure
     \<and> baseline m (settle True m p s t q a)
     \<and> dataSource (settle True m p s t q a) = Mock
     \<and> settle False m p s t q a = a"
proof -
  from failed_fetched [OF assms] obtain e where e: "fetched p s t q = Inl e" ..
  have "baseline m (settle True m p s t q a)"
    by (simp add: settle_failed [OF e] baseline_loading baseline_commit_fallback)
  moreover have "dataSource (settle True m p s t q a) = Mock"
    by (simp add: settle_failed [OF e] commit_fallback_def)
  ultimately show ?thesis
    using e gateway_failed [OF assms] settle_stale by blast
qed

text \<open>
  Three of the four retrievals succeed and the signals request comes back with status 500,
  while the state shows live data: the cycle leaves the baseline dataset.
\<close>

theorem all_or_nothing_witness:
  "failed (Response False (Json (VObj [(''detail'', VStr ''Internal Server Error'')])))
   \<and> baseline ''tech''
        (settle True ''tech''
           (Response True (Json (VObj [(''metrics'', VObj [(''winRate'', VNum (Fin 71.5))])])))
           (Response False (Json (VObj [(''detail'', VStr ''Internal Server Error'')])))
           (Response True (Json (VObj [(''trades'', VArr [VObj [(''symbol'', VStr ''AMD'')]])])))
           (Response True (Json (VObj [(''positions'', VArr [VObj [(''symbol'', VStr ''AMD'')]])])))
           (app_init\<lparr>trades := VArr [VObj [(''symbol'', VStr ''AMD'')]],
              dataSource := Live\<rparr>))
   \<and> dataSource
        (settle True ''tech''
           (Response True (Json (VObj [(''metrics'', VObj [(''winRate'', VNum (Fin 71.5))])])))
           (Response False (Json (VObj [(''detail'', VStr ''Internal Server Error'')])))
           (Response True (Json (VObj [(''trades'', VArr [VObj [(''symbol'', VStr ''AMD'')]])])))
           (Response True (Json (VObj [(''positions'', VArr [VObj [(''symbol'', VStr ''AMD'')]])])))
           (app_init\<lparr>trades := VArr [VObj [(''symbol'', VStr ''AMD'')]],
              dataSource := Live\<rparr>)) = Mock"
proof -
  have f: "failed (Response False (Json (VObj [(''detail'', VStr ''Internal Server Error'')])))"
    by (simp add: failed_def)
  then have "failed (Response True (Json (VObj [(''metrics'',
        VObj [(''winRate'', VNum (Fin 71.5))])])))
      \<or> failed (Response False (Json (VObj [(''detail'', VStr ''Internal Server Error'')])))
      \<or> failed (Response True (Json (VObj [(''trades'',
        VArr [VObj [(''symbol'', VStr ''AMD'')]])])))
      \<or> failed (Response True (Json (VObj [(''positions'',
        VArr [VObj [(''symbol'', VStr ''AMD'')]])])))"
    by blast
  from all_or_nothing [OF this] f show ?thesis by blast
qed

section \<open>The state after a cycle\<close>

text \<open>
  C2, as stated, fails: a successful cycle can leave a mixture. The signals payload of this
  cycle carries an empty array and its trades payload one trade; after the cycle the state
  is live, the trades are those of the cycle, and the signals are the five sample signals
  of the baseline dataset, not the empty array of the cycle.
\<close>

theorem empty_signals_counterexample:
  "dataSource
     (settle True ''tech''
        (Response True (Json (VObj [(''metrics'', VObj [(''winRate'', VNum (Fin 71.5))])])))
        (Response True (Json (VObj [(''signals'', VArr [])])))
        (Response True (Json (VObj [(''trades'', VArr [VObj [(''symbol'', VStr ''AMD'')]])])))
        (Response True (Json (VObj [(''positions'', VArr [VObj [(''symbol'', VStr ''AMD'')]])])))
        app_init) = Live
   \<and> trades
     (settle True ''tech''
        (Response True (Json (VObj [(''metrics'', VObj [(''winRate'', VNum (Fin 71.5))])])))
        (Response True (Json (VObj [(''signals'', VArr [])])))
        (Response True (Json (VObj [(''trades'', VArr [VObj [(''symbol'', VStr ''AMD'')]])])))
        (Response True (Json (VObj [(''positions'', VArr [VObj [(''symbol'', VStr ''AMD'')]])])))
        app_init) = VArr [VObj [(''symbol'', VStr ''AMD'')]]
   \<and> signals
     (settle True ''tech''
        (Response True (Json (VObj [(''metrics'', VObj [(''winRate'', VNum (Fin 71.5))])])))
        (Response True (Json (VObj [(''signals'', VArr [])])))
        (Response True (Json (VObj [(''trades'', VArr [VObj [(''symbol'', VStr ''AMD'')]])])))
        (Response True (Json (VObj [(''positions'', VArr [VObj [(''symbol'', VStr ''AMD'')]])])))
        app_init) = VArr mockSignals_tech
   \<and> VArr mockSignals_tech \<noteq> VArr []
   \<and> VArr [VObj [(''symbol'', VStr ''AMD'')]] \<noteq> VArr mockTrades"
  by (simp add: settle_def fetched_def commit_live_def Let_def opt_length_def truthy_num_def
      fallbackSignals_def mockSignals_def mockSignals_tech_def mockTrades_def)

text \<open>
  C2, amended. After every cycle of a mounted effect the state is in one of two
  configurations. After a failure it shows sample data and all four collections are the
  baseline dataset. After a success it shows live data; the performance is the baseline
  metrics overlaid with those of the payload, with the equity curve of the payload when
  there is one; and each of the signals, the trades and the positions is the array of the
  payload when that array is not empty, and the baseline collection when the array is
  empty or missing. (The state holds the records as they came; they are normalized when
  the tables render.)
\<close>

theorem settled_store:
  "(gateway p s t q = Failure \<longrightarrow>
      dataSource (settle True m p s t q a) = Mock \<and> baseline m (settle True m p s t q a))
   \<and> (gateway p s t q = Success \<longrightarrow>
      dataSource (settle True m p s t q a) = Live
      \<and> (\<exists>pj sj tj qj. fetched p s t q = Inr (pj, sj, tj, qj)
           \<and> performance (settle True m p s t q a)
               = \<lparr> metrics = VObj (live_metrics pj), equityCurve = live_equityCurve pj \<rparr>
           \<and> signals (settle True m p s t q a)
               = nonempty_or (dot sj ''signals'') (fallbackSignals m)
           \<and> trades (settle True m p s t q a)
               = nonempty_or (dot tj ''trades'') (VArr mockTrades)
           \<and> positions (settle True m p s t q a)
               = nonempty_or (dot qj ''positions'') (VArr mockPositions)))
   \<and> nonempty_or (VArr (x # xs)) d = VArr (x # xs)
   \<and> nonempty_or (VArr []) d = d
   \<and> nonempty_or VUndef d = d
   \<and> nonempty_or VNull d = d"
proof -
  have 1: "dataSource (settle True m p s t q a) = Mock \<and> baseline m (settle True m p s t q a)"
    if "gateway p s t q = Failure"
  proof
    show "dataSource (settle True m p s t q a) = Mock"
      by (simp add: settle_failure [OF that] commit_fallback_def)
    show "baseline m (settle True m p s t q a)"
      by (simp add: settle_failure [OF that] baseline_loading baseline_commit_fallback)
  qed
  have 2: "dataSource (settle True m p s t q a) = Live
      \<and> (\<exists>pj sj tj qj. fetched p s t q = Inr (pj, sj, tj, qj)
           \<and> performance (settle True m p s t q a)
               = \<lparr> metrics = VObj (live_metrics pj), equityCurve = live_equityCurve pj \<rparr>
           \<and> signals (settle True m p s t q a)
               = nonempty_or (dot sj ''signals'') (fallbackSignals m)
           \<and> trades (settle True m p s t q a)
               = nonempty_or (dot tj ''trades'') (VArr mockTrades)
           \<and> positions (settle True m p s t q a)
               = nonempty_or (dot qj ''positions'') (VArr mockPositions))"
    if "gateway p s t q = Success"
  proof -
    from settle_success [OF that, of m a] obtain pj sj tj qj where
      f: "fetched p s t q = Inr (pj, sj, tj, qj)"
      and st: "settle True m p s t q a =
       a\<lparr>performance := \<lparr> metrics = VObj (live_metrics pj),
                                  equityCurve = live_equityCurve pj \<rparr>,
              signals := nonempty_or (dot sj ''signals'') (fallbackSignals m),
              trades := nonempty_or (dot tj ''trades'') (VArr mockTrades),
              positions := nonempty_or (dot qj ''positions'') (VArr mockPositions),
              dataSource := Live, loading := False\<rparr>"
      by blast
    show ?thesis unfolding st using f by simp
  qed
  from 1 2 nonempty_or_simps show ?thesis by blast
qed

text \<open>
  The amended claim at the cycle of the counterexample (a success with an empty signals
  array) and at a cycle whose positions request is rejected.
\<close>

theorem settled_store_witness:
  "gateway
     (Response True (Json (VObj [(''metrics'', VObj [(''winRate'', VNum (Fin 71.5))])])))
     (Response True (Json (VObj [(''signals'', VArr [])])))
     (Response True (Json (VObj [(''trades'', VArr [VObj [(''symbol'', VStr ''AMD'')]])])))
     (Response True (Json (VObj [(''positions'', VArr [VObj [(''symbol'', VStr ''AMD'')]])])))
     = Success
   \<and> dataSource
     (settle True ''tech''
        (Response True (Json (VObj [(''metrics'', VObj [(''winRate'', VNum (Fin 71.5))])])))
        (Response True (Json (VObj [(''signals'', VArr [])])))
        (Response True (Json (VObj [(''trades'', VArr [VObj [(''symbol'', VStr ''AMD'')]])])))
        (Response True (Json (VObj [(''positions'', VArr [VObj [(''symbol'', VStr ''AMD'')]])])))
        app_init) = Live
   \<and> gateway
     (Response True (Json (VObj [(''metrics'', VObj [(''winRate'', VNum (Fin 71.5))])])))
     (Response True (Json (VObj [(''signals'', VArr [])])))
     (Response True (Json (VObj [(''trades'', VArr [VObj [(''symbol'', VStr ''AMD'')]])])))
     Rejected
     = Failure
   \<and> baseline ''energy''
     (settle True ''energy''
        (Response True (Json (VObj [(''metrics'', VObj [(''winRate'', VNum (Fin 71.5))])])))
        (Response True (Json (VObj [(''signals'', VArr [])])))
        (Response True (Json (VObj [(''trades'', VArr [VObj [(''symbol'', VStr ''AMD'')]])])))
        Rejected
        app_init)"
proof -
  let ?p = "Response True (Json (VObj [(''metrics'', VObj [(''winRate'', VNum (Fin 71.5))])]))"
  let ?s = "Response True (Json (VObj [(''signals'', VArr [])]))"
  let ?t = "Response True (Json (VObj [(''trades'', VArr [VObj [(''symbol'', VStr ''AMD'')]])]))"
  let ?q = "Response True (Json (VObj [(''positions'',
      VArr [VObj [(''symbol'', VStr ''AMD'')]])]))"
  have 1: "gateway ?p ?s ?t ?q = Success" by (simp add: gateway_def readable_def)
  have 2: "gateway ?p ?s ?t Rejected = Failure" by (simp add: gateway_def readable_def)
  from settled_store [of ?p ?s ?t ?q "''tech''" app_init]
    settled_store [of ?p ?s ?t Rejected "''energy''" app_init] 1 2
  show ?thesis by blast
qed

section \<open>The fallback controller\<close>

text \<open>
  C6. The controller has two states, sample data (\<open>Mock\<close>, the \<open>FALLBACK\<close> of the
  specification) and live data (\<open>Live\<close>). The component starts in \<open>Mock\<close>, showing the
  baseline dataset, before any request has come back. Every cycle of a mounted effect
  moves the state as the specification's transition table says, where a gateway attempt
  succeeds when all four retrievals come back \<open>ok\<close> with a JSON body that is not \<open>null\<close>:
  success leads to \<open>Live\<close> from either state, failure to \<open>Mock\<close> from either state.
\<close>

theorem fallback_controller:
  "dataSource app_init = Mock
   \<and> dataSource (ui mounted_world) = Mock
   \<and> baseline ''tech'' (ui mounted_world)
   \<and> inflight mounted_world = [(0, ''tech'')]
   \<and> dataSource (settle True m p s t q a) = controller (dataSource a) (gateway p s t q)"
proof -
  have 1: "dataSource app_init = Mock" by (simp add: app_init_def)
  have u: "ui mounted_world = app_init\<lparr>loading := True\<rparr>"
    by (simp add: mounted_world_def run_effect_def begin_cycle_def begin_fetch_def Let_def
        reset_signals_def app_init_def)
  have 2: "dataSource (ui mounted_world) = Mock" by (simp add: u app_init_def)
  have 3: "baseline ''tech'' (ui mounted_world)"
    by (simp add: u baseline_def app_init_def spread_copy)
  have 4: "inflight mounted_world = [(0, ''tech'')]"
    by (simp add: mounted_world_def run_effect_def begin_cycle_def Let_def app_init_def)
  have 5: "dataSource (settle True m p s t q a) = controller (dataSource a) (gateway p s t q)"
  proof (cases "gateway p s t q")
    case Success
    from settle_success [OF this, of m a] have "dataSource (settle True m p s t q a) = Live"
      by auto
    with Success show ?thesis by (cases "dataSource a") simp_all
  next
    case Failure
    from settle_failure [OF this, of m a] have "dataSource (settle True m p s t q a) = Mock"
      by (simp add: commit_fallback_def)
    with Failure show ?thesis by (cases "dataSource a") simp_all
  qed
  from 1 2 3 4 5 show ?thesis by blast
qed

text \<open>
  The controller at a recovery and at a loss of the backend: a successful cycle from
  the sample-data state, and a cycle with a rejected request from the live state.
\<close>

theorem fallback_controller_witness:
  "gateway
     (Response True (Json (VObj [(''metrics'', VObj [(''winRate'', VNum (Fin 71.5))])])))
     (Response True (Json (VObj [(''signals'', VArr [])])))
     (Response True (Json (VObj [(''trades'', VArr [VObj [(''symbol'', VStr ''AMD'')]])])))
     (Response True (Json (VObj [(''positions'', VArr [VObj [(''symbol'', VStr ''AMD'')]])])))
     = Success
   \<and> dataSource
     (settle True ''tech''
        (Response True (Json (VObj [(''metrics'', VObj [(''winRate'', VNum (Fin 71.5))])])))
        (Response True (Json (VObj [(''signals'', VArr [])])))
        (Response True (Json (VObj [(''trades'', VArr [VObj [(''symbol'', VStr ''AMD'')]])])))
        (Response True (Json (VObj [(''positions'', VArr [VObj [(''symbol'', VStr ''AMD'')]])])))
        app_init) = Live
   \<and> gateway Rejected Rejected Rejected Rejected = Failure
   \<and> dataSource
     (settle True ''tech'' Rejected Rejected Rejected Rejected (app_init\<lparr>dataSource := Live\<rparr>))
       = Mock"
proof -
  let ?p = "Response True (Json (VObj [(''metrics'', VObj [(''winRate'', VNum (Fin 71.5))])]))"
  let ?s = "Response True (Json (VObj [(''signals'', VArr [])]))"
  let ?t = "Response True (Json (VObj [(''trades'', VArr [VObj [(''symbol'', VStr ''AMD'')]])]))"
  let ?q = "Response True (Json (VObj [(''positions'',
      VArr [VObj [(''symbol'', VStr ''AMD'')]])]))"
  have 1: "gateway ?p ?s ?t ?q = Success" by (simp add: gateway_def readable_def)
  have 2: "gateway Rejected Rejected Rejected Rejected = Failure"
    by (simp add: gateway_def readable_def)
  have 3: "dataSource app_init = Mock" "dataSource (app_init\<lparr>dataSource := Live\<rparr>) = Live"
    by (simp_all add: app_init_def)
  from fallback_controller [of "''tech''" ?p ?s ?t ?q app_init]
    fallback_controller [of "''tech''" Rejected Rejected Rejected Rejected
      "app_init\<lparr>dataSource := Live\<rparr>"] 1 2 3
  show ?thesis by simp
qed

section \<open>Reachable worlds\<close>

lemma settle_selectedModel [simp]: "selectedModel (settle f m p s t q a) = selectedModel a"
  by (auto simp add: settle_def commit_live_def commit_fallback_def Let_def
      split: sum.splits prod.splits option.splits if_splits)

lemma begin_cycle_fields [simp]:
  "alive (begin_cycle i m w) = alive w" "timers (begin_cycle i m w) = timers w"
  "current (begin_cycle i m w) = current w" "fresh (begin_cycle i m w) = fresh w"
  "selectedModel (ui (begin_cycle i m w)) = selectedModel (ui w)"
  "dataSource (ui (begin_cycle i m w)) = dataSource (ui w)"
  by (simp_all add: begin_cycle_def begin_fetch_def)

lemma begin_cycle_inflight:
  "inflight (begin_cycle i m w) = (if i \<in> set (alive w) then inflight w @ [(i, m)] else inflight w)"
  by (simp add: begin_cycle_def)

lemma coherent_mounted: "coherent mounted_world"
  by (simp add: coherent_def mounted_world_def run_effect_def Let_def begin_cycle_inflight
      reset_signals_def)

lemma inflight_mono:
  "list_all (\<lambda>(j, m). j < n) xs \<Longrightarrow> n \<le> n' \<Longrightarrow> list_all (\<lambda>(j :: nat, m :: string). j < n') xs"
  by (induction xs) auto

lemma coherent_cleanup_run:
  assumes "coherent w"
  shows "coherent (run_effect (cleanup w))"
proof (cases "current w")
  case None
  with assms show ?thesis
    by (auto simp add: coherent_def cleanup_def run_effect_def Let_def begin_cycle_inflight
        elim: inflight_mono)
next
  case (Some i)
  with assms show ?thesis
    by (auto simp add: coherent_def cleanup_def run_effect_def Let_def begin_cycle_inflight
        elim: inflight_mono)
qed

lemma coherent_ui:
  assumes "coherent w" "selectedModel a = selectedModel (ui w)" "dataSource a = dataSource (ui w)"
  shows "coherent (w\<lparr>ui := a\<rparr>)"
  using assms by (auto simp add: coherent_def split: option.splits)

lemma coherent_ui_any:
  assumes "coherent w"
  shows "coherent (run_effect (cleanup (w\<lparr>ui := a\<rparr>)))"
proof -
  have "coherent (run_effect (cleanup w'))"
    if "case current w' of None \<Rightarrow> alive w' = [] \<and> timers w' = []
        | Some i \<Rightarrow> alive w' = [i] \<and> i < fresh w' \<and> (\<exists>m ms. timers w' = [(i, m, ms)])"
       "list_all (\<lambda>(j, m). j < fresh w') (inflight w')" for w'
    using that
    by (cases "current w'")
       (auto simp add: coherent_def cleanup_def run_effect_def Let_def begin_cycle_inflight
        elim: inflight_mono)
  then show ?thesis using assms
    by (cases "current w") (auto simp add: coherent_def)
qed

lemma list_all_remove_nth:
  "list_all P xs \<Longrightarrow> list_all P (take k xs @ drop (Suc k) xs)"
  by (auto simp add: list_all_iff dest: in_set_takeD in_set_dropD)

lemma coherent_step: 
  assumes "coherent w"
  shows "coherent (step e w)"
proof (cases e)
  case (Tick i)
  show ?thesis
  proof (cases "find (\<lambda>(j, m, ms). j = i) (timers w)")
    case None
    with Tick assms show ?thesis by simp
  next
    case (Some x)
    obtain j m ms where x: "x = (j, m, ms)" by (cases x) auto
    from Some x have "(j, m, ms) \<in> set (timers w)"
      by (auto simp add: find_Some_iff in_set_conv_nth)
    with assms have "current w = Some j" "alive w = [j]" "j < fresh w"
      by (auto simp add: coherent_def split: option.splits)
    with assms have "coherent (begin_cycle j m w)"
      by (auto simp add: coherent_def begin_cycle_inflight)
    with Tick Some x show ?thesis by simp
  qed
next
  case (Settle k p s t q)
  show ?thesis
  proof (cases "k < length (inflight w)")
    case False
    with Settle assms show ?thesis by simp
  next
    case True
    obtain i m where im: "inflight w ! k = (i, m)" by (cases "inflight w ! k") auto
    define a where "a = settle (i \<in> set (alive w)) m p s t q (ui w)"
    define w1 where "w1 = w\<lparr>ui := a, inflight := take k (inflight w) @ drop (Suc k) (inflight w)\<rparr>"
    have c0: "coherent (w\<lparr>inflight := take k (inflight w) @ drop (Suc k) (inflight w)\<rparr>)"
      using assms list_all_remove_nth [of _ "inflight w" k]
      by (auto simp add: coherent_def simp del: list_all_append split: option.splits)
    have st: "step e w = (if current w \<noteq> None \<and> dataSource a \<noteq> dataSource (ui w)
           then run_effect (cleanup w1) else w1)"
      using Settle True im by (simp add: a_def w1_def Let_def)
    have w1: "w1 = (w\<lparr>inflight := take k (inflight w) @ drop (Suc k) (inflight w)\<rparr>)\<lparr>ui := a\<rparr>"
      by (simp add: w1_def)
    show ?thesis
    proof (cases "current w \<noteq> None \<and> dataSource a \<noteq> dataSource (ui w)")
      case True
      with coherent_ui_any [OF c0, of a] w1 st show ?thesis by simp
    next
      case False
      have "dataSource a = dataSource (ui w)"
      proof (cases "current w")
        case None
        with assms have "alive w = []" by (simp add: coherent_def)
        then show ?thesis by (simp add: a_def settle_stale)
      next
        case (Some c)
        with False show ?thesis by simp
      qed
      moreover have "selectedModel a = selectedModel (ui w)" by (simp add: a_def)
      ultimately have "coherent w1"
        unfolding w1 by (intro coherent_ui [OF c0]) simp_all
      with False st show ?thesis by auto
    qed
  qed
next
  case (Select m)
  show ?thesis
  proof (cases "current w = None \<or> m = selectedModel (ui w)")
    case True
    with Select assms show ?thesis by auto
  next
    case False
    define w1 where "w1 = run_effect (cleanup (w\<lparr>ui := (ui w)\<lparr>selectedModel := m\<rparr>\<rparr>))"
    have "coherent w1" unfolding w1_def by (rule coherent_ui_any [OF assms])
    then have "coherent (w1\<lparr>ui := reset_signals (ui w1)\<rparr>)"
      by (rule coherent_ui) (simp_all add: reset_signals_def)
    with False Select show ?thesis by (auto simp add: w1_def Let_def)
  qed
next
  case Unmount
  with assms show ?thesis
    by (auto simp add: coherent_def cleanup_def split: option.splits)
qed

lemma coherent_run: "coherent w \<Longrightarrow> coherent (run evs w)"
  unfolding run_def by (induction evs arbitrary: w) (simp_all add: coherent_step)

lemma coherent_reachable: "coherent (run evs mounted_world)"
  by (rule coherent_run [OF coherent_mounted])

lemma run_effect_alive: "alive (run_effect w) = fresh w # alive w" "fresh (run_effect w) = Suc (fresh w)"
  by (simp_all add: run_effect_def Let_def)

lemma cleanup_alive: "set (alive (cleanup w)) \<subseteq> set (alive w)" "fresh (cleanup w) = fresh w"
  by (auto simp add: cleanup_def split: option.splits)

lemma stale_step:
  assumes "i < fresh w" "i \<notin> set (alive w)"
  shows "i < fresh (step e w) \<and> i \<notin> set (alive (step e w))"
proof -
  have re: "i < fresh (run_effect (cleanup w')) \<and> i \<notin> set (alive (run_effect (cleanup w')))"
    if "i < fresh w'" "i \<notin> set (alive w')" for w'
    using that cleanup_alive [of w'] by (auto simp add: run_effect_alive)
  show ?thesis
  proof (cases e)
    case (Tick j)
    with assms show ?thesis by (auto split: option.splits)
  next
    case (Settle k p s t q)
    with assms re [of "w\<lparr>ui := a, inflight := xs\<rparr>" for a xs]
    show ?thesis by (auto simp add: Let_def split: prod.splits)
  next
    case (Select m)
    with assms re [of "w\<lparr>ui := a\<rparr>" for a]
    show ?thesis by (auto simp add: Let_def)
  next
    case Unmount
    with assms cleanup_alive [of w] show ?thesis by auto
  qed
qed

lemma stale_run:
  "i < fresh w \<Longrightarrow> i \<notin> set (alive w) \<Longrightarrow> i \<notin> set (alive (run evs w))"
  unfolding run_def
proof (induction evs arbitrary: w)
  case Nil
  then show ?case by simp
next
  case (Cons e evs)
  from stale_step [OF Cons.prems, of e] Cons.IH [of "step e w"] show ?case by simp
qed

lemma teardown_stale:
  assumes "coherent w" "e = Unmount \<or> (e = Select m \<and> m \<noteq> selectedModel (ui w))" "i < fresh w"
  shows "i < fresh (step e w) \<and> i \<notin> set (alive (step e w))"
proof (cases "current w")
  case None
  with assms have "alive w = []" by (simp add: coherent_def)
  with assms(3) stale_step [of i w e] show ?thesis by simp
next
  case (Some c)
  with assms(1) have a: "alive w = [c]" by (simp add: coherent_def)
  from assms(2) show ?thesis
  proof
    assume "e = Unmount"
    with Some a assms(3) show ?thesis by (simp add: cleanup_def)
  next
    assume "e = Select m \<and> m \<noteq> selectedModel (ui w)"
    with Some a assms(3) show ?thesis
      by (simp add: cleanup_def Let_def run_effect_alive)
  qed
qed

lemma step_settle_stale:
  assumes "k < length (inflight w)" "fst (inflight w ! k) \<notin> set (alive w)"
  shows "ui (step (Settle k p s t q) w) = ui w"
proof -
  obtain i m where im: "inflight w ! k = (i, m)" by (cases "inflight w ! k") auto
  with assms have "i \<notin> set (alive w)" by simp
  with assms(1) im show ?thesis by (simp add: Let_def settle_stale)
qed

lemma timers_reachable:
  assumes "x \<in> set (timers (run evs mounted_world))"
  shows "timers (run evs mounted_world) = [x]"
    and "\<exists>i. x = (i, selectedModel (ui (run evs mounted_world)),
                 intervalMs (dataSource (ui (run evs mounted_world))))
           \<and> current (run evs mounted_world) = Some i \<and> alive (run evs mounted_world) = [i]"
  using assms coherent_reachable [of evs]
  by (auto simp add: coherent_def split: option.splits)

section \<open>Stale cycles\<close>

text \<open>
  C7. Take any world the component can reach, and tear the effect down there: the user
  selects another model, or the component unmounts. Whatever happens afterwards, a cycle
  that was begun before the teardown and is still in flight leaves the state of the
  dashboard exactly as it is when its requests come back, whatever they bring.
\<close>

theorem stale_cycle_never_commits:
  assumes "w1 = run evs1 mounted_world"
    and "e = Unmount \<or> (e = Select B \<and> B \<noteq> selectedModel (ui w1))"
    and "w3 = run evs2 (step e w1)"
    and "k < length (inflight w3)"
    and "fst (inflight w3 ! k) < fresh w1"
  shows "ui (step (Settle k p s t q) w3) = ui w3"
proof -
  have "coherent w1" unfolding assms(1) by (rule coherent_reachable)
  from teardown_stale [OF this assms(2) assms(5)]
  have "fst (inflight w3 ! k) \<notin> set (alive w3)"
    unfolding assms(3) by (intro stale_run) simp_all
  with assms(4) show ?thesis by (rule step_settle_stale)
qed

text \<open>
  The first cycle, begun for the model \<open>tech\<close>, is in flight when the user selects
  \<open>energy\<close>. Its four requests then come back well: nothing is written. The same
  responses given to the cycle begun for \<open>energy\<close> turn the dashboard live.
\<close>

theorem stale_cycle_never_commits_witness:
  "Select ''energy'' = Select ''energy''
   \<and> ''energy'' \<noteq> selectedModel (ui (run [] mounted_world))
   \<and> inflight (run [] (step (Select ''energy'') (run [] mounted_world)))
       = [(0, ''tech''), (1, ''energy'')]
   \<and> fresh (run [] mounted_world) = 1
   \<and> ui (step (Settle 0
          (Response True (Json (VObj [(''metrics'', VObj [(''winRate'', VNum (Fin 71.5))])])))
          (Response True (Json (VObj [(''signals'', VArr [VObj [(''symbol'', VStr ''AMD'')]])])))
          (Response True (Json (VObj [(''trades'', VArr [VObj [(''symbol'', VStr ''AMD'')]])])))
          (Response True (Json (VObj [(''positions'', VArr [VObj [(''symbol'', VStr ''AMD'')]])]))))
        (run [] (step (Select ''energy'') (run [] mounted_world))))
       = ui (run [] (step (Select ''energy'') (run [] mounted_world)))
   \<and> dataSource (ui (step (Settle 1
          (Response True (Json (VObj [(''metrics'', VObj [(''winRate'', VNum (Fin 71.5))])])))
          (Response True (Json (VObj [(''signals'', VArr [VObj [(''symbol'', VStr ''AMD'')]])])))
          (Response True (Json (VObj [(''trades'', VArr [VObj [(''symbol'', VStr ''AMD'')]])])))
          (Response True (Json (VObj [(''positions'', VArr [VObj [(''symbol'', VStr ''AMD'')]])]))))
        (run [] (step (Select ''energy'') (run [] mounted_world))))) = Live"
proof -
  let ?w1 = "run [] mounted_world"
  let ?w3 = "run [] (step (Select ''energy'') ?w1)"
  have m: "mounted_world = \<lparr> ui = app_init\<lparr>loading := True\<rparr>, alive = [0],
      timers = [(0, ''tech'', intervalMs Mock)], inflight = [(0, ''tech'')],
      current = Some 0, fresh = 1 \<rparr>"
    by (simp add: mounted_world_def run_effect_def begin_cycle_def begin_fetch_def Let_def
        reset_signals_def app_init_def)
  have w3: "?w3 = \<lparr> ui = app_init\<lparr>loading := True, selectedModel := ''energy'',
        signals := fallbackSignals ''energy''\<rparr>, alive = [1],
      timers = [(1, ''energy'', intervalMs Mock)], inflight = [(0, ''tech''), (1, ''energy'')],
      current = Some 1, fresh = 2 \<rparr>"
    by (simp add: run_def m cleanup_def run_effect_def begin_cycle_def begin_fetch_def Let_def
        reset_signals_def app_init_def)
  have 1: "''energy'' \<noteq> selectedModel (ui ?w1)"
    by (simp add: run_def m app_init_def)
  have 2: "inflight ?w3 = [(0, ''tech''), (1, ''energy'')]" unfolding w3 by simp
  have 3: "fresh ?w1 = 1" by (simp add: run_def m)
  have 4: "(0::nat) < length (inflight ?w3)" "fst (inflight ?w3 ! 0) < fresh ?w1"
    unfolding 2 3 by simp_all
  have e: "Select ''energy'' = Unmount \<or>
      (Select ''energy'' = Select ''energy'' \<and> ''energy'' \<noteq> selectedModel (ui ?w1))"
    using 1 by simp
  note 5 = stale_cycle_never_commits [OF refl e refl 4]
  have 6: "dataSource (ui (step (Settle 1
          (Response True (Json (VObj [(''metrics'', VObj [(''winRate'', VNum (Fin 71.5))])])))
          (Response True (Json (VObj [(''signals'', VArr [VObj [(''symbol'', VStr ''AMD'')]])])))
          (Response True (Json (VObj [(''trades'', VArr [VObj [(''symbol'', VStr ''AMD'')]])])))
          (Response True (Json (VObj [(''positions'', VArr [VObj [(''symbol'', VStr ''AMD'')]])]))))
        ?w3)) = Live"
    unfolding w3
    by (simp add: settle_def fetched_def commit_live_def Let_def cleanup_def run_effect_def
        begin_cycle_def begin_fetch_def app_init_def)
  from 1 2 3 5 6 show ?thesis by blast
qed

section \<open>The period of the timer\<close>

text \<open>
  C8. The period of the timer is a function of the state of the fallback controller alone:
  5 minutes when the dashboard shows live data, 15 minutes when it shows sample data. In
  every world the component can reach, the timer that is armed has the period of the state
  as it is now (a change of state runs the effect again, which arms a new timer).
\<close>

theorem interval_policy:
  "intervalMs Live = 5 * 60 * 1000
   \<and> intervalMs Mock = 15 * 60 * 1000
   \<and> (\<forall>(i, m, ms) \<in> set (timers (run evs mounted_world)).
         ms = intervalMs (dataSource (ui (run evs mounted_world))))"
  using timers_reachable(2) [of _ evs] by (auto simp add: intervalMs_def)

text \<open>
  After the first cycle has succeeded the dashboard is live and the timer armed is the one
  of the second run of the effect, with a period of 300000 ms.
\<close>

theorem interval_policy_witness:
  "dataSource (ui (run [Settle 0
          (Response True (Json (VObj [(''metrics'', VObj [(''winRate'', VNum (Fin 71.5))])])))
          (Response True (Json (VObj [(''signals'', VArr [VObj [(''symbol'', VStr ''AMD'')]])])))
          (Response True (Json (VObj [(''trades'', VArr [VObj [(''symbol'', VStr ''AMD'')]])])))
          (Response True (Json (VObj [(''positions'', VArr [VObj [(''symbol'', VStr ''AMD'')]])])))]
        mounted_world)) = Live
   \<and> timers (run [Settle 0
          (Response True (Json (VObj [(''metrics'', VObj [(''winRate'', VNum (Fin 71.5))])])))
          (Response True (Json (VObj [(''signals'', VArr [VObj [(''symbol'', VStr ''AMD'')]])])))
          (Response True (Json (VObj [(''trades'', VArr [VObj [(''symbol'', VStr ''AMD'')]])])))
          (Response True (Json (VObj [(''positions'', VArr [VObj [(''symbol'', VStr ''AMD'')]])])))]
        mounted_world) = [(1, ''tech'', 300000)]"
proof -
  let ?evs = "[Settle 0
          (Response True (Json (VObj [(''metrics'', VObj [(''winRate'', VNum (Fin 71.5))])])))
          (Response True (Json (VObj [(''signals'', VArr [VObj [(''symbol'', VStr ''AMD'')]])])))
          (Response True (Json (VObj [(''trades'', VArr [VObj [(''symbol'', VStr ''AMD'')]])])))
          (Response True (Json (VObj [(''positions'', VArr [VObj [(''symbol'', VStr ''AMD'')]])])))]"
  have m: "mounted_world = \<lparr> ui = app_init\<lparr>loading := True\<rparr>, alive = [0],
      timers = [(0, ''tech'', intervalMs Mock)], inflight = [(0, ''tech'')],
      current = Some 0, fresh = 1 \<rparr>"
    by (simp add: mounted_world_def run_effect_def begin_cycle_def begin_fetch_def Let_def
        reset_signals_def app_init_def)
  have d: "dataSource (ui (run ?evs mounted_world)) = Live"
    unfolding m
    by (simp add: run_def settle_def fetched_def commit_live_def Let_def cleanup_def
        run_effect_def begin_cycle_def begin_fetch_def app_init_def)
  have "map (\<lambda>(i, m, ms). (i, m)) (timers (run ?evs mounted_world)) = [(1, ''tech'')]"
    unfolding m
    by (simp add: run_def settle_def fetched_def commit_live_def Let_def cleanup_def
        run_effect_def begin_cycle_def begin_fetch_def app_init_def)
  then obtain ms where t: "timers (run ?evs mounted_world) = [(1, ''tech'', ms)]"
    by (auto simp add: map_eq_Cons_conv)
  with interval_policy [of ?evs] d have "ms = 300000"
    by (simp add: intervalMs_def)
  with d t show ?thesis by simp
qed

section \<open>The poller\<close>

text \<open>
  C9, as stated, fails: cycles overlap. The component as mounted has its first cycle in
  flight and its timer armed already. When the timer fires before the requests have come
  back, a second cycle of the same run of the effect is in flight beside the first; and
  when the user selects another model, the cycle of the new run is in flight beside the
  one of the old.
\<close>

theorem overlapping_cycles_counterexample:
  "inflight mounted_world = [(0, ''tech'')]
   \<and> timers mounted_world = [(0, ''tech'', 900000)]
   \<and> inflight (run [Tick 0] mounted_world) = [(0, ''tech''), (0, ''tech'')]
   \<and> alive (run [Tick 0] mounted_world) = [0]
   \<and> inflight (run [Select ''energy''] mounted_world) = [(0, ''tech''), (1, ''energy'')]"
  by (simp add: run_def mounted_world_def run_effect_def begin_cycle_def begin_fetch_def Let_def
      reset_signals_def app_init_def cleanup_def intervalMs_def)

text \<open>
  C9, amended. Cycles can overlap. A run of the effect begins a cycle and, in the same
  step, arms one \<open>setInterval\<close> timer, without waiting for the cycle to settle; every
  tick of the armed timer begins one more cycle, whatever is still in flight. What the
  component does bound is the timers: in every world it can reach at most one is armed,
  and it belongs to the one run of the effect whose flag is true.
\<close>

theorem poller_schedule:
  "length (timers (run evs mounted_world)) \<le> 1
   \<and> (\<forall>(i, m, ms) \<in> set (timers (run evs mounted_world)).
         current (run evs mounted_world) = Some i
         \<and> alive (run evs mounted_world) = [i]
         \<and> inflight (step (Tick i) (run evs mounted_world))
             = inflight (run evs mounted_world) @ [(i, m)])
   \<and> timers (run_effect w)
       = (fresh w, selectedModel (ui w), intervalMs (dataSource (ui w))) # timers w
   \<and> inflight (run_effect w) = inflight w @ [(fresh w, selectedModel (ui w))]"
proof -
  let ?w = "run evs mounted_world"
  have 1: "length (timers ?w) \<le> 1"
    using coherent_reachable [of evs] by (auto simp add: coherent_def split: option.splits)
  have 2: "current ?w = Some i \<and> alive ?w = [i]
         \<and> inflight (step (Tick i) ?w) = inflight ?w @ [(i, m)]"
    if "(i, m, ms) \<in> set (timers ?w)" for i m ms
  proof -
    from timers_reachable [OF that] have t: "timers ?w = [(i, m, ms)]"
      and c: "current ?w = Some i" "alive ?w = [i]" by auto
    from t c show ?thesis by (simp add: begin_cycle_inflight)
  qed
  have 3: "timers (run_effect w)
       = (fresh w, selectedModel (ui w), intervalMs (dataSource (ui w))) # timers w"
    by (simp add: run_effect_def Let_def)
  have 4: "inflight (run_effect w) = inflight w @ [(fresh w, selectedModel (ui w))]"
    by (simp add: run_effect_def Let_def begin_cycle_inflight)
  from 1 2 3 4 show ?thesis by blast
qed

text \<open>
  The amended claim after the timer has fired once: one timer, that of run 0, and a tick
  of it puts a third cycle in flight.
\<close>

theorem poller_schedule_witness:
  "timers (run [Tick 0] mounted_world) = [(0, ''tech'', 900000)]
   \<and> current (run [Tick 0] mounted_world) = Some 0
   \<and> alive (run [Tick 0] mounted_world) = [0]
   \<and> inflight (step (Tick 0) (run [Tick 0] mounted_world))
       = inflight (run [Tick 0] mounted_world) @ [(0, ''tech'')]"
proof -
  have t: "timers (run [Tick 0] mounted_world) = [(0, ''tech'', 900000)]"
    by (simp add: run_def mounted_world_def run_effect_def begin_cycle_def begin_fetch_def
        Let_def reset_signals_def app_init_def intervalMs_def)
  then have "(0, ''tech'', 900000) \<in> set (timers (run [Tick 0] mounted_world))" by simp
  with poller_schedule [of "[Tick 0]"] t show ?thesis by blast
qed

end
